theory Spec2Isabelle
  imports Complex_Main
begin

section \<open>The feed document and the Python operations applied to it\<close>

text \<open>
  \<^verbatim>\<open>game.py\<close> and \<^verbatim>\<open>team.py\<close> work on the documents the NHL stats API returns: parsed
  JSON, that is nested Python dicts and lists with strings, numbers, booleans and
  \<^verbatim>\<open>None\<close> at the leaves. A dict is an association list in insertion order, with one
  entry per key as in Python. A float is represented by the rational it denotes (the
  code only negates and compares floats, both exact on the value). A \<^typ>\<open>string\<close> is the
  sequence of its code points, below 256.
\<close>

datatype json =
    JNone
  | JBool bool
  | JInt int
  | JFloat rat
  | JStr string
  | JList "json list"
  | JDict "(string \<times> json) list"

text \<open>
  The exceptions the two files can raise. \<open>Unmodelled\<close> is not an exception of
  Python: it marks the few operand types on which an operator's Python behaviour is
  outside this development (printf formatting by \<^verbatim>\<open>%\<close> on a string, numpy arrays of
  nested sequences or of integers beyond 64 bits, \<^verbatim>\<open>int\<close> of a string that is not plain
  digits). No theorem below takes \<open>Unmodelled\<close> for a result of the code.
\<close>

datatype exn = KeyError | TypeError | IndexError | AttributeError | ValueError | Unmodelled

definition bnd :: "exn + 'a \<Rightarrow> ('a \<Rightarrow> exn + 'b) \<Rightarrow> exn + 'b" where
  "bnd m f = (case m of Inl e \<Rightarrow> Inl e | Inr v \<Rightarrow> f v)"

text \<open>\<^verbatim>\<open>try: ... except KeyError: ...\<close>: only a KeyError reaches the handler.\<close>

definition except_KeyError :: "exn + 'a \<Rightarrow> (exn + 'a) \<Rightarrow> exn + 'a" where
  "except_KeyError body handler =
     (case body of Inl KeyError \<Rightarrow> handler | other \<Rightarrow> other)"

text \<open>\<^verbatim>\<open>d[k]\<close> with a string key \<open>k\<close>.\<close>

fun py_getitem :: "json \<Rightarrow> string \<Rightarrow> exn + json" where
  "py_getitem (JDict kvs) k = (case map_of kvs k of None \<Rightarrow> Inl KeyError | Some v \<Rightarrow> Inr v)"
| "py_getitem _ k = Inl TypeError"

text \<open>\<^verbatim>\<open>xs[i]\<close> with an integer \<open>i\<close>; a negative index counts from the end. A dict
  with string keys has no integer key.\<close>

definition list_index :: "'a list \<Rightarrow> int \<Rightarrow> exn + 'a" where
  "list_index xs i =
     (if 0 \<le> i \<and> i < int (length xs) then Inr (xs ! nat i)
      else if i < 0 \<and> - int (length xs) \<le> i then Inr (xs ! nat (int (length xs) + i))
      else Inl IndexError)"

fun py_index :: "json \<Rightarrow> int \<Rightarrow> exn + json" where
  "py_index (JList xs) i = list_index xs i"
| "py_index (JStr s) i = bnd (list_index s i) (\<lambda>c. Inr (JStr [c]))"
| "py_index (JDict kvs) i = Inl KeyError"
| "py_index _ i = Inl TypeError"

text \<open>Truth value of an object in an \<^verbatim>\<open>if\<close>.\<close>

fun truthy :: "json \<Rightarrow> bool" where
  "truthy JNone = False"
| "truthy (JBool b) = b"
| "truthy (JInt n) = (n \<noteq> 0)"
| "truthy (JFloat q) = (q \<noteq> 0)"
| "truthy (JStr s) = (s \<noteq> [])"
| "truthy (JList xs) = (xs \<noteq> [])"
| "truthy (JDict kvs) = (kvs \<noteq> [])"

text \<open>\<^verbatim>\<open>==\<close>: booleans, integers and floats compare by value; lists element by element;
  dicts by their keys and the values under them.\<close>

fun num_val :: "json \<Rightarrow> rat option" where
  "num_val (JBool b) = Some (if b then 1 else 0)"
| "num_val (JInt n) = Some (of_int n)"
| "num_val (JFloat q) = Some q"
| "num_val _ = None"

fun py_eq :: "json \<Rightarrow> json \<Rightarrow> bool" where
  "py_eq (JStr s) (JStr t) = (s = t)"
| "py_eq JNone JNone = True"
| "py_eq (JList xs) (JList ys) = list_all2 py_eq xs ys"
| "py_eq (JDict a) (JDict b) =
     (set (map fst a) = set (map fst b) \<and>
      list_all (\<lambda>(k, v). case map_of b k of None \<Rightarrow> False | Some w \<Rightarrow> py_eq v w) a)"
| "py_eq x y = (case (num_val x, num_val y) of (Some p, Some q) \<Rightarrow> p = q | _ \<Rightarrow> False)"

text \<open>\<^verbatim>\<open>x in [a, b, ...]\<close> compares with \<^verbatim>\<open>==\<close>; \<^verbatim>\<open>x in {'a', 'b', ...}\<close> hashes \<open>x\<close>
  first, which a list or a dict refuses.\<close>

definition in_list :: "json \<Rightarrow> string list \<Rightarrow> bool" where
  "in_list x names = list_ex (\<lambda>s. py_eq x (JStr s)) names"

fun in_set :: "json \<Rightarrow> string list \<Rightarrow> exn + bool" where
  "in_set (JList xs) names = Inl TypeError"
| "in_set (JDict kvs) names = Inl TypeError"
| "in_set x names = Inr (list_ex (\<lambda>s. py_eq x (JStr s)) names)"

text \<open>\<^verbatim>\<open>a > b\<close>: numbers by value, strings and lists lexicographically, anything else
  is a TypeError.\<close>

fun str_gt :: "string \<Rightarrow> string \<Rightarrow> bool" where
  "str_gt [] t = False"
| "str_gt (c # s) [] = True"
| "str_gt (c # s) (d # t) =
     (if c = d then str_gt s t else (of_char d :: nat) < of_char c)"

fun py_gt :: "json \<Rightarrow> json \<Rightarrow> exn + bool"
  and list_gt :: "json list \<Rightarrow> json list \<Rightarrow> exn + bool" where
  "py_gt (JStr s) (JStr t) = Inr (str_gt s t)"
| "py_gt (JList xs) (JList ys) = list_gt xs ys"
| "py_gt x y = (case (num_val x, num_val y) of (Some p, Some q) \<Rightarrow> Inr (q < p) | _ \<Rightarrow> Inl TypeError)"
| "list_gt [] ys = Inr False"
| "list_gt (x # xs) [] = Inr True"
| "list_gt (x # xs) (y # ys) = (if py_eq x y then list_gt xs ys else py_gt x y)"

text \<open>\<^verbatim>\<open>s.lower()\<close> and \<^verbatim>\<open>s.split('_')\<close> on strings; \<^verbatim>\<open>x.lower()\<close> on anything else is an
  AttributeError.\<close>

definition lower_char :: "char \<Rightarrow> char" where
  "lower_char c =
     (let n = (of_char c :: nat)
      in if (65 \<le> n \<and> n \<le> 90) \<or> (192 \<le> n \<and> n \<le> 222 \<and> n \<noteq> 215) then char_of (n + 32) else c)"

definition str_lower :: "string \<Rightarrow> string" where
  "str_lower s = map lower_char s"

fun py_lower :: "json \<Rightarrow> exn + string" where
  "py_lower (JStr s) = Inr (str_lower s)"
| "py_lower _ = Inl AttributeError"

fun split_on :: "char \<Rightarrow> string \<Rightarrow> string list" where
  "split_on sep [] = [[]]"
| "split_on sep (c # s) =
     (if c = sep then [] # split_on sep s
      else (case split_on sep s of [] \<Rightarrow> [[c]] | w # ws \<Rightarrow> (c # w) # ws))"

text \<open>\<^verbatim>\<open>str(n)\<close> and \<^verbatim>\<open>int(x)\<close>.\<close>

fun digits :: "nat \<Rightarrow> string" where
  "digits n =
     (if n < 10 then [char_of (48 + n)] else digits (n div 10) @ [char_of (48 + n mod 10)])"

definition str_of_int :: "int \<Rightarrow> string" where
  "str_of_int i = (if i < 0 then CHR ''-'' # digits (nat (- i)) else digits (nat i))"

definition is_digit :: "char \<Rightarrow> bool" where
  "is_digit c = (48 \<le> (of_char c :: nat) \<and> (of_char c :: nat) \<le> 57)"

definition digits_val :: "string \<Rightarrow> int" where
  "digits_val s = foldl (\<lambda>acc c. 10 * acc + (int (of_char c) - 48)) 0 s"

fun py_int :: "json \<Rightarrow> exn + int" where
  "py_int (JInt n) = Inr n"
| "py_int (JBool b) = Inr (if b then 1 else 0)"
| "py_int (JFloat q) = Inr (if q < 0 then - \<lfloor>- q\<rfloor> else \<lfloor>q\<rfloor>)"
| "py_int (JStr s) = (if s \<noteq> [] \<and> list_all is_digit s then Inr (digits_val s) else Inl Unmodelled)"
| "py_int _ = Inl TypeError"

text \<open>\<^verbatim>\<open>x[:10]\<close>. Slicing a dict is a TypeError (the slice is unhashable) in the Python
  versions the package was written for.\<close>

fun py_slice10 :: "json \<Rightarrow> exn + json" where
  "py_slice10 (JStr s) = Inr (JStr (take 10 s))"
| "py_slice10 (JList xs) = Inr (JList (take 10 xs))"
| "py_slice10 _ = Inl TypeError"

text \<open>\<^verbatim>\<open>x % 2 == 0\<close>.\<close>

fun mod2_is_zero :: "json \<Rightarrow> exn + bool" where
  "mod2_is_zero (JInt n) = Inr (n mod 2 = 0)"
| "mod2_is_zero (JBool b) = Inr (\<not> b)"
| "mod2_is_zero (JFloat q) = Inr (case quotient_of q of (n, d) \<Rightarrow> d = 1 \<and> n mod 2 = 0)"
| "mod2_is_zero (JStr s) = Inl Unmodelled"
| "mod2_is_zero _ = Inl TypeError"

section \<open>team.py\<close>

text \<open>The documented argument type of \<^verbatim>\<open>Team.__init__\<close> and \<^verbatim>\<open>Game.__init__\<close>: \<^verbatim>\<open>str or int\<close>.\<close>

datatype arg = AInt int | AStr string

definition team_map :: "(string \<times> int) list" where
  "team_map =
    [(''new jersey devils'', 1),        (''njd'', 1),
     (''new york islanders'', 2),       (''nyi'', 2),
     (''new york rangers'', 3),         (''nyr'', 3),
     (''philadelphia flyers'', 4),      (''phi'', 4),
     (''pittsburgh penguins'', 5),      (''pit'', 5),
     (''boston bruins'', 6),            (''bos'', 6),
     (''buffalo sabres'', 7),           (''buf'', 7),
     (''montreal canadiens'', 8),       (''mtl'', 8),
     (''ottawa senators'', 9),          (''ott'', 9),
     (''toronto maple leafs'', 10),     (''tor'', 10),
     (''carolina hurricanes'', 12),     (''car'', 12),
     (''florida panthers'', 13),        (''fla'', 13),
     (''tampa bay lightning'', 14),     (''tbl'', 14),
     (''washington capitals'', 15),     (''wsh'', 15),
     (''chicago blackhawks'', 16),      (''chi'', 16),
     (''detroit red wings'', 17),       (''det'', 17),
     (''nashville predators'', 18),     (''nsh'', 18),
     (''st. louis blues'', 19),         (''stl'', 19),
     (''calgary flames'', 20),          (''cgy'', 20),
     (''colorado avalanche'', 21),      (''col'', 21),
     (''edmonton oilers'', 22),         (''edm'', 22),
     (''vancouver canucks'', 23),       (''van'', 23),
     (''anaheim ducks'', 24),           (''ana'', 24),
     (''dallas stars'', 25),            (''dal'', 25),
     (''los angeles kings'', 26),       (''lak'', 26),
     (''san jose sharks'', 28),         (''sjs'', 28),
     (''columbus blue jackets'', 29),   (''cbj'', 29),
     (''minnesota wild'', 30),          (''min'', 30),
     (''winnipeg jets'', 52),           (''wpg'', 52),
     (''arizona coyotes'', 53),         (''ari'', 53),
     (''vegas golden knights'', 54),    (''vgk'', 54)]"

text \<open>
  Lines 112-116 of \<^verbatim>\<open>team.py\<close>: the attribute \<^verbatim>\<open>self.team_id\<close> after the \<^verbatim>\<open>if\<close>/\<^verbatim>\<open>elif\<close>.
  \<open>None\<close> is an attribute that was never assigned (there is no \<^verbatim>\<open>else\<close>).
\<close>

definition convert_team_id :: "arg \<Rightarrow> exn + string option" where
  "convert_team_id team_id =
     (case team_id of
        AInt n \<Rightarrow> Inr (Some (str_of_int n))
      | AStr s \<Rightarrow>
          if length s > 2 then
            (case map_of team_map (str_lower s) of
               None \<Rightarrow> Inl KeyError
             | Some n \<Rightarrow> Inr (Some (str_of_int n)))
          else Inr None)"

text \<open>Reading an attribute that was never assigned.\<close>

definition get_attr :: "'a option \<Rightarrow> exn + 'a" where
  "get_attr a = (case a of None \<Rightarrow> Inl AttributeError | Some v \<Rightarrow> Inr v)"

text \<open>Iterating over an object: a list yields its elements, a dict its keys, a string
  its characters.\<close>

fun py_iter :: "json \<Rightarrow> exn + json list" where
  "py_iter (JList xs) = Inr xs"
| "py_iter (JDict kvs) = Inr (map (\<lambda>kv. JStr (fst kv)) kvs)"
| "py_iter (JStr s) = Inr (map (\<lambda>c. JStr [c]) s)"
| "py_iter _ = Inl TypeError"

fun mapM :: "('a \<Rightarrow> exn + 'b) \<Rightarrow> 'a list \<Rightarrow> exn + 'b list" where
  "mapM f [] = Inr []"
| "mapM f (x # xs) = bnd (f x) (\<lambda>y. bnd (mapM f xs) (\<lambda>ys. Inr (y # ys)))"

text \<open>One roster entry \<^verbatim>\<open>{fullName: (id, jerseyNumber, code)}\<close>: the key must be hashable.\<close>

record player =
  fullName :: json
  person_id :: json
  jerseyNumber :: json
  position_code :: json

definition roster_entry :: "json \<Rightarrow> exn + player" where
  "roster_entry p =
     bnd (py_getitem p ''person'') (\<lambda>person.
     bnd (py_getitem person ''fullName'') (\<lambda>name.
     bnd (py_getitem person ''id'') (\<lambda>pid.
     bnd (py_getitem p ''jerseyNumber'') (\<lambda>num.
     bnd (py_getitem p ''position'') (\<lambda>pos.
     bnd (py_getitem pos ''code'') (\<lambda>code.
     (case name of
        JList _ \<Rightarrow> Inl TypeError
      | JDict _ \<Rightarrow> Inl TypeError
      | _ \<Rightarrow> Inr \<lparr>fullName = name, person_id = pid, jerseyNumber = num,
                  position_code = code\<rparr>)))))))"

text \<open>\<^verbatim>\<open>code in 'LCR'\<close> is a substring test and needs a string on the left;
  \<^verbatim>\<open>code == 'D'\<close> is an equality test.\<close>

fun is_substring :: "string \<Rightarrow> string \<Rightarrow> bool" where
  "is_substring s [] = (s = [])"
| "is_substring s (c # t) = (take (length s) (c # t) = s \<or> is_substring s t)"

fun in_LCR :: "json \<Rightarrow> exn + bool" where
  "in_LCR (JStr s) = Inr (is_substring s ''LCR'')"
| "in_LCR _ = Inl TypeError"

fun filterM :: "('a \<Rightarrow> exn + bool) \<Rightarrow> 'a list \<Rightarrow> exn + 'a list" where
  "filterM f [] = Inr []"
| "filterM f (x # xs) =
     bnd (f x) (\<lambda>b. bnd (filterM f xs) (\<lambda>ys. Inr (if b then x # ys else ys)))"

record Team =
  team_id :: string
  season :: "string option"
  roster :: "player list"
  offense :: "player list"
  defense :: "player list"
  goalies :: "player list"

text \<open>
  \<^verbatim>\<open>Team.__init__\<close>. \<open>getTeamRoster\<close> stands for \<^verbatim>\<open>nhl.api.getTeamRoster\<close>, the HTTP
  client, which the constructor calls with \<^verbatim>\<open>self.team_id\<close>: the attribute is read
  before the call is made.
\<close>

definition Team_init ::
  "(string \<Rightarrow> string option \<Rightarrow> exn + json) \<Rightarrow> arg \<Rightarrow> string option \<Rightarrow> exn + Team" where
  "Team_init getTeamRoster team_id_arg season_arg =
     bnd (convert_team_id team_id_arg) (\<lambda>attr.
     bnd (get_attr attr) (\<lambda>tid.
     bnd (getTeamRoster tid season_arg) (\<lambda>raw.
     bnd (py_iter raw) (\<lambda>entries.
     bnd (mapM roster_entry entries) (\<lambda>ros.
     bnd (filterM (\<lambda>p. in_LCR (position_code p)) ros) (\<lambda>off.
     Inr \<lparr>team_id = tid, season = season_arg, roster = ros, offense = off,
          defense = filter (\<lambda>p. py_eq (position_code p) (JStr ''D'')) ros,
          goalies = filter (\<lambda>p. py_eq (position_code p) (JStr ''G'')) ros\<rparr>))))))"

section \<open>game.py: numpy arrays and pandas tables\<close>

text \<open>\<^verbatim>\<open>a['x']['y']...\<close>: a chain of subscripts, left to right.\<close>

fun getpath :: "json \<Rightarrow> string list \<Rightarrow> exn + json" where
  "getpath d [] = Inr d"
| "getpath d (k # ks) = bnd (py_getitem d k) (\<lambda>v. getpath v ks)"

text \<open>\<^verbatim>\<open>d.keys()\<close> and \<^verbatim>\<open>d.values()\<close> exist on dicts only.\<close>

fun py_keys :: "json \<Rightarrow> exn + string list" where
  "py_keys (JDict kvs) = Inr (map fst kvs)"
| "py_keys _ = Inl AttributeError"

fun py_values :: "json \<Rightarrow> exn + json list" where
  "py_values (JDict kvs) = Inr (map snd kvs)"
| "py_values _ = Inl AttributeError"

text \<open>
  \<^verbatim>\<open>np.array(list_of_values)\<close>. numpy picks the element type from the values: an empty
  list gives an empty float array, booleans a boolean array, integers (and booleans
  among them) an integer array, a float among numbers a float array; a string,
  \<^verbatim>\<open>None\<close> or a dict among the values gives an array of objects or of strings, kept
  here as the values it was built from. The integers are those of 64 bits, and those a
  float holds exactly when floats are present.
\<close>

datatype ndarray =
    BoolArr "bool list"
  | IntArr "int list"
  | FloatArr "rat list"
  | ObjArr "json list"

fun is_JBool :: "json \<Rightarrow> bool" where
  "is_JBool (JBool b) = True"
| "is_JBool _ = False"

fun is_JList :: "json \<Rightarrow> bool" where
  "is_JList (JList xs) = True"
| "is_JList _ = False"

fun is_int_like :: "json \<Rightarrow> bool" where
  "is_int_like (JBool b) = True"
| "is_int_like (JInt n) = True"
| "is_int_like _ = False"

fun int_of :: "json \<Rightarrow> int" where
  "int_of (JInt n) = n"
| "int_of (JBool b) = (if b then 1 else 0)"
| "int_of _ = 0"

fun fits :: "int \<Rightarrow> json \<Rightarrow> bool" where
  "fits bound (JInt n) = (- bound < n \<and> n < bound)"
| "fits bound _ = True"

definition np_array :: "json list \<Rightarrow> exn + ndarray" where
  "np_array vs =
     (if vs = [] then Inr (FloatArr [])
      else if list_all is_JBool vs then Inr (BoolArr (map (\<lambda>v. v = JBool True) vs))
      else if list_all is_int_like vs then
        (if list_all (fits (2 ^ 63)) vs then Inr (IntArr (map int_of vs)) else Inl Unmodelled)
      else if list_all (\<lambda>v. num_val v \<noteq> None) vs then
        (if list_all (fits (2 ^ 53)) vs then Inr (FloatArr (map (\<lambda>v. the (num_val v)) vs))
         else Inl Unmodelled)
      else if list_ex is_JList vs then Inl Unmodelled
      else Inr (ObjArr vs))"

text \<open>\<^verbatim>\<open>-a\<close> on an array: numpy has no negative for booleans, strings or the objects
  above and raises a TypeError.\<close>

fun np_neg :: "ndarray \<Rightarrow> exn + ndarray" where
  "np_neg (IntArr xs) = Inr (IntArr (map uminus xs))"
| "np_neg (FloatArr xs) = Inr (FloatArr (map uminus xs))"
| "np_neg (BoolArr bs) = Inl TypeError"
| "np_neg (ObjArr vs) = Inl TypeError"

text \<open>The numbers a numeric array holds.\<close>

fun arr_values :: "ndarray \<Rightarrow> rat list" where
  "arr_values (BoolArr bs) = map (\<lambda>b. if b then 1 else 0) bs"
| "arr_values (IntArr ns) = map of_int ns"
| "arr_values (FloatArr qs) = qs"
| "arr_values (ObjArr vs) = []"

text \<open>
  A table cell holds a Python object, a numpy array or \<^verbatim>\<open>np.nan\<close>. A
  \<^verbatim>\<open>pd.DataFrame(data, columns=cols)\<close> is kept as its column names and the rows
  it was built from; pandas refuses rows whose width is not the number of names. The
  tables built here have rows of one width, so no padding of short rows arises. The row
  labels (the index) and pandas' conversion of column types are not part of the model.
\<close>

datatype cell = Obj json | Arr ndarray | NaN

record DataFrame =
  columns :: "string list"
  rows :: "cell list list"

definition pd_DataFrame :: "cell list list \<Rightarrow> string list \<Rightarrow> exn + DataFrame" where
  "pd_DataFrame data cols =
     (if list_all (\<lambda>r. length r = length cols) data
      then Inr \<lparr>columns = cols, rows = data\<rparr>
      else Inl ValueError)"

text \<open>The position of a column, and the cell of row \<open>i\<close> under a column name.\<close>

fun index_of :: "string \<Rightarrow> string list \<Rightarrow> nat option" where
  "index_of c [] = None"
| "index_of c (d # ds) = (if c = d then Some 0 else map_option Suc (index_of c ds))"

definition field :: "string list \<Rightarrow> cell list \<Rightarrow> string \<Rightarrow> cell option" where
  "field cols r c =
     (case index_of c cols of
        None \<Rightarrow> None
      | Some j \<Rightarrow> if j < length r then Some (r ! j) else None)"

definition cell_at :: "DataFrame \<Rightarrow> nat \<Rightarrow> string \<Rightarrow> cell option" where
  "cell_at df i c = (if i < length (rows df) then field (columns df) (rows df ! i) c else None)"

text \<open>\<^verbatim>\<open>df[df.event == e].copy()\<close>, \<^verbatim>\<open>pd.concat\<close> of tables with the same columns,
  \<^verbatim>\<open>df.drop(labels, axis=1)\<close> (a KeyError on a label that is no column) and
  \<^verbatim>\<open>df.rename(columns=mapping)\<close>.\<close>

definition where_event :: "DataFrame \<Rightarrow> string \<Rightarrow> DataFrame" where
  "where_event df e =
     (case index_of ''event'' (columns df) of
        None \<Rightarrow> df\<lparr>rows := []\<rparr>
      | Some j \<Rightarrow> df\<lparr>rows := filter (\<lambda>r. j < length r \<and> r ! j = Obj (JStr e)) (rows df)\<rparr>)"

definition pd_concat :: "DataFrame list \<Rightarrow> DataFrame" where
  "pd_concat dfs =
     \<lparr>columns = (case dfs of [] \<Rightarrow> [] | d # _ \<Rightarrow> columns d), rows = concat (map rows dfs)\<rparr>"

fun drop_nth :: "nat \<Rightarrow> 'a list \<Rightarrow> 'a list" where
  "drop_nth n [] = []"
| "drop_nth 0 (x # xs) = xs"
| "drop_nth (Suc n) (x # xs) = x # drop_nth n xs"

fun df_drop :: "string list \<Rightarrow> DataFrame \<Rightarrow> exn + DataFrame" where
  "df_drop [] df = Inr df"
| "df_drop (c # cs) df =
     (case index_of c (columns df) of
        None \<Rightarrow> Inl KeyError
      | Some j \<Rightarrow>
          df_drop cs \<lparr>columns = drop_nth j (columns df), rows = map (drop_nth j) (rows df)\<rparr>)"

definition df_rename :: "(string \<times> string) list \<Rightarrow> DataFrame \<Rightarrow> DataFrame" where
  "df_rename mapping df =
     df\<lparr>columns := map (\<lambda>c. case map_of mapping c of None \<Rightarrow> c | Some d \<Rightarrow> d) (columns df)\<rparr>"

section \<open>game.py: the constructor\<close>

text \<open>
  The instance. \<open>shotData_slot\<close> and \<open>DataFrame_slot\<close> are the private attributes
  \<^verbatim>\<open>_shotData\<close> and \<^verbatim>\<open>_DataFrame\<close>; the last four fields are the attributes that
  \<^verbatim>\<open>makeDataFrames\<close> creates (\<open>None\<close> before its first run).
\<close>

record Game =
  game_id :: "string option"
  live_data :: json
  home :: json
  away :: json
  home_id :: json
  away_id :: json
  home_goals :: json
  away_goals :: json
  final :: bool
  winner :: json
  date :: json
  agg_stats :: DataFrame
  shotData_slot :: "DataFrame option"
  DataFrame_slot :: "DataFrame option"
  shot_data :: "DataFrame option"
  penalty_data :: "DataFrame option"
  turnover_data :: "DataFrame option"
  hit_data :: "DataFrame option"

fun str_of_arg :: "arg \<Rightarrow> string" where
  "str_of_arg (AInt n) = str_of_int n"
| "str_of_arg (AStr s) = s"

text \<open>Lines 71-77: the winner, from the two goal attributes.\<close>

definition set_winner :: "bool \<Rightarrow> json \<Rightarrow> json \<Rightarrow> json \<Rightarrow> json \<Rightarrow> exn + json" where
  "set_winner fin hg ag h a =
     (if \<not> fin then Inr JNone
      else bnd (py_gt hg ag) (\<lambda>more. if more then Inr h else Inr a))"

text \<open>Lines 87-93: for every key of the home team's skater statistics, in the dict's
  order, the home and the away value are appended to the home row and, swapped, to the
  away row.\<close>

definition skater_stat :: "json \<Rightarrow> string \<Rightarrow> string \<Rightarrow> exn + json" where
  "skater_stat stats side stat = getpath stats [side, ''teamStats'', ''teamSkaterStats'', stat]"

fun append_stats :: "json \<Rightarrow> string list \<Rightarrow> cell list \<times> cell list \<Rightarrow> exn + cell list \<times> cell list" where
  "append_stats stats [] (hrow, arow) = Inr (hrow, arow)"
| "append_stats stats (stat # rest) (hrow, arow) =
     bnd (skater_stat stats ''home'' stat) (\<lambda>hv.
     bnd (skater_stat stats ''away'' stat) (\<lambda>av.
     append_stats stats rest (hrow @ [Obj hv, Obj av], arow @ [Obj av, Obj hv])))"

definition agg_cols :: "string list" where
  "agg_cols =
    [''date'', ''team'', ''team_id'', ''opponent'', ''home'', ''win'',
     ''goals_for'', ''goals_against'', ''penalty_minutes_for'',
     ''penalty_minutes_against'', ''shots_for'', ''shots_against'',
     ''PPP_for'', ''PPP_against'', ''PPG_for'', ''PPG_against'',
     ''PPO_for'', ''PPO_against'', ''faceoff_win_percentage_for'',
     ''faceoff_win_percentage_against'', ''blocked_shots_for'',
     ''blocked_shots_against'', ''takeaways_for'', ''takeaways_against'',
     ''giveaways_for'', ''giveaways_against'', ''hits_for'', ''hits_against'']"

text \<open>The statistics the column names pair as \<open>_for\<close> and \<open>_against\<close>.\<close>

definition tracked_stats :: "string list" where
  "tracked_stats =
    [''goals'', ''penalty_minutes'', ''shots'', ''PPP'', ''PPG'', ''PPO'',
     ''faceoff_win_percentage'', ''blocked_shots'', ''takeaways'', ''giveaways'', ''hits'']"

text \<open>
  \<^verbatim>\<open>Game.__init__\<close>. \<open>getLiveData\<close> stands for \<^verbatim>\<open>nhl.api.getLiveData\<close>, the HTTP client.
  Line 56 reads the away goals from the \<^emph>\<open>home\<close> entry of the linescore, as line 55
  does for the home goals.
\<close>

definition Game_init :: "(string option \<Rightarrow> exn + json) \<Rightarrow> arg option \<Rightarrow> exn + Game" where
  "Game_init getLiveData game_id_arg =
     (let gid = map_option str_of_arg game_id_arg in
      bnd (getLiveData gid) (\<lambda>doc.
      bnd (getpath doc [''boxscore'', ''teams'', ''home'']) (\<lambda>temp_home.
      bnd (getpath doc [''boxscore'', ''teams'', ''away'']) (\<lambda>temp_away.
      bnd (getpath temp_home [''team'', ''triCode'']) (\<lambda>h.
      bnd (getpath temp_away [''team'', ''triCode'']) (\<lambda>a.
      bnd (getpath temp_home [''team'', ''id'']) (\<lambda>hid.
      bnd (getpath temp_away [''team'', ''id'']) (\<lambda>aid.
      bnd (getpath doc [''linescore'', ''teams'', ''home'', ''goals'']) (\<lambda>hg.
      bnd (getpath doc [''linescore'', ''teams'', ''home'', ''goals'']) (\<lambda>ag.
      bnd (getpath doc [''plays'', ''currentPlay'']) (\<lambda>temp_cur.
      bnd (set_winner True hg ag h a) (\<lambda>w.
      bnd (getpath temp_cur [''about'', ''dateTime'']) (\<lambda>dt.
      bnd (py_slice10 dt) (\<lambda>d.
      bnd (getpath doc [''boxscore'', ''teams'']) (\<lambda>stats.
      bnd (getpath stats [''home'', ''teamStats'', ''teamSkaterStats'']) (\<lambda>hstats.
      bnd (py_keys hstats) (\<lambda>ks.
      bnd (append_stats stats ks
             ([Obj d, Obj h, Obj hid, Obj a, Obj (JBool True), Obj (JBool (py_eq w h))],
              [Obj d, Obj a, Obj aid, Obj h, Obj (JBool False), Obj (JBool (py_eq w a))]))
          (\<lambda>(hrow, arow).
      bnd (pd_DataFrame [hrow, arow] agg_cols) (\<lambda>agg.
      Inr \<lparr>game_id = gid, live_data = doc, home = h, away = a, home_id = hid,
           away_id = aid, home_goals = hg, away_goals = ag, final = True, winner = w,
           date = d, agg_stats = agg, shotData_slot = None, DataFrame_slot = None,
           shot_data = None, penalty_data = None, turnover_data = None,
           hit_data = None\<rparr>)))))))))))))))))))"

section \<open>game.py: the shot table\<close>

definition shotIDs :: "string list" where
  "shotIDs = [''SHOT'', ''MISSED_SHOT'', ''BLOCKED_SHOT'', ''GOAL'']"

definition shot_cols :: "string list" where
  "shot_cols = [''shooter'', ''result'', ''other'', ''shotType'', ''coords'', ''period'',
                ''periodTime'', ''shooterTeam'', ''otherTeam'']"

text \<open>Line 167: \<^verbatim>\<open>eventTypeId.split('_')[0].lower()\<close>.\<close>

fun split0_lower :: "json \<Rightarrow> exn + string" where
  "split0_lower (JStr s) = bnd (list_index (split_on CHR ''_'' s) 0) (\<lambda>w. Inr (str_lower w))"
| "split0_lower _ = Inl AttributeError"

text \<open>Lines 199-205: the loop over the event's players; the last shooter or scorer
  and the last goalie or blocker win.\<close>

fun involved :: "json list \<Rightarrow> json \<times> json \<Rightarrow> exn + json \<times> json" where
  "involved [] (shooter, other) = Inr (shooter, other)"
| "involved (p # ps) (shooter, other) =
     bnd (py_getitem p ''playerType'') (\<lambda>role.
     bnd (if in_list role [''Shooter'', ''Scorer'']
          then getpath p [''player'', ''fullName''] else Inr shooter) (\<lambda>shooter'.
     bnd (if in_list role [''Goalie'', ''Blocker'']
          then getpath p [''player'', ''fullName''] else Inr other) (\<lambda>other'.
     involved ps (shooter', other'))))"

text \<open>
  Lines 208-212. \<open>coords\<close> is \<^verbatim>\<open>None\<close> (here \<open>None\<close>) or an array. The handler is
  written \<^verbatim>\<open>except IndexError or TypeError\<close>; Python evaluates \<^verbatim>\<open>IndexError or TypeError\<close>
  to its first operand, so the handler catches an IndexError and nothing else.
\<close>

definition neg_coords :: "ndarray option \<Rightarrow> exn + ndarray option" where
  "neg_coords c =
     (case c of None \<Rightarrow> Inl TypeError | Some arr \<Rightarrow> bnd (np_neg arr) (\<lambda>b. Inr (Some b)))"

definition flip_coords :: "ndarray option \<Rightarrow> exn + ndarray option" where
  "flip_coords c = (case neg_coords c of Inl IndexError \<Rightarrow> Inr c | other \<Rightarrow> other)"

definition coords_cell :: "ndarray option \<Rightarrow> cell" where
  "coords_cell c = (case c of None \<Rightarrow> Obj JNone | Some arr \<Rightarrow> Arr arr)"

text \<open>Lines 190-193 and 286-289: the array of the coordinate values, in the dict's
  order.\<close>

definition coords_array :: "json \<Rightarrow> exn + ndarray" where
  "coords_array event =
     bnd (py_getitem event ''coordinates'') (\<lambda>c.
     bnd (py_values c) (\<lambda>vs. np_array vs))"

text \<open>
  Lines 172-175, 178-181 and 329-332: the game's other team, \<^verbatim>\<open>self.away\<close> when the
  given code is \<^verbatim>\<open>self.home\<close> and \<^verbatim>\<open>self.home\<close> otherwise. Lines 170-181: the shooter's
  team and the other team of a shot, from the event's team code \<open>tc\<close>.
\<close>

definition other_team :: "json \<Rightarrow> json \<Rightarrow> json \<Rightarrow> json" where
  "other_team h a tc = (if py_eq h tc then a else h)"

definition shot_teams :: "json \<Rightarrow> json \<Rightarrow> string \<Rightarrow> json \<Rightarrow> json \<times> json" where
  "shot_teams h a result tc =
     (if result = ''blocked'' then (other_team h a tc, tc) else (tc, other_team h a tc))"

text \<open>The body of the loop of \<^verbatim>\<open>shotData\<close> (lines 160-217) for one event: \<open>None\<close>
  when the event is no shot, the row otherwise.\<close>

definition shot_row :: "json \<Rightarrow> json \<Rightarrow> json \<Rightarrow> exn + cell list option" where
  "shot_row h a event =
     bnd (getpath event [''result'', ''eventTypeId'']) (\<lambda>ety.
     if \<not> in_list ety shotIDs then Inr None
     else
     bnd (split0_lower ety) (\<lambda>result.
     bnd (getpath event [''team'', ''triCode'']) (\<lambda>tc.
     let (shooterTeam, otherTeam) = shot_teams h a result tc in
     bnd (except_KeyError (getpath event [''result'', ''secondaryType'']) (Inr JNone)) (\<lambda>shotType.
     bnd (except_KeyError (bnd (coords_array event) (\<lambda>arr. Inr (Some arr))) (Inr None)) (\<lambda>coords.
     bnd (getpath event [''about'', ''period'']) (\<lambda>period.
     bnd (getpath event [''about'', ''periodTime'']) (\<lambda>periodTime.
     bnd (py_getitem event ''players'') (\<lambda>players.
     bnd (py_iter players) (\<lambda>ps.
     bnd (involved ps (JNone, JNone)) (\<lambda>(shooter, other).
     bnd (mod2_is_zero period) (\<lambda>even_period.
     bnd (if even_period then flip_coords coords else Inr coords) (\<lambda>coords'.
     Inr (Some [Obj shooter, Obj (JStr result), Obj other, Obj shotType, coords_cell coords',
                Obj period, Obj periodTime, Obj shooterTeam, Obj otherTeam])))))))))))))"

fun shot_rows :: "json \<Rightarrow> json \<Rightarrow> json list \<Rightarrow> exn + cell list list" where
  "shot_rows h a [] = Inr []"
| "shot_rows h a (e # es) =
     bnd (shot_row h a e) (\<lambda>r.
     bnd (shot_rows h a es) (\<lambda>rs. Inr (case r of None \<Rightarrow> rs | Some v \<Rightarrow> v # rs)))"

text \<open>\<^verbatim>\<open>self.getLiveData()\<close> when a refresh is asked for.\<close>

definition refresh :: "(string option \<Rightarrow> exn + json) \<Rightarrow> bool \<Rightarrow> Game \<Rightarrow> exn + Game" where
  "refresh getLiveData updateLiveData g =
     (if updateLiveData then bnd (getLiveData (game_id g)) (\<lambda>d. Inr (g\<lparr>live_data := d\<rparr>))
      else Inr g)"

text \<open>
  \<^verbatim>\<open>Game.shotData\<close>: the table it returns and the instance after the call. The method
  ends with \<^verbatim>\<open>return pd.DataFrame(_data, columns=cols)\<close>; no line assigns
  \<^verbatim>\<open>self._shotData\<close>.
\<close>

definition shotData ::
  "(string option \<Rightarrow> exn + json) \<Rightarrow> bool \<Rightarrow> Game \<Rightarrow> exn + DataFrame \<times> Game" where
  "shotData getLiveData updateLiveData g =
     (if \<not> updateLiveData \<and> shotData_slot g \<noteq> None then Inr (the (shotData_slot g), g)
      else
      bnd (refresh getLiveData updateLiveData g) (\<lambda>g1.
      bnd (getpath (live_data g1) [''plays'', ''allPlays'']) (\<lambda>plays.
      bnd (py_iter plays) (\<lambda>events.
      bnd (shot_rows (home g1) (away g1) events) (\<lambda>data.
      bnd (pd_DataFrame data shot_cols) (\<lambda>df. Inr (df, g1)))))))"

section \<open>game.py: the event table\<close>

definition event_cols :: "string list" where
  "event_cols =
    [''event'', ''secondary_type'', ''player_one'', ''player_one_role'',
     ''player_two'', ''player_two_role'', ''coords'', ''period'',
     ''period_time_remaining'', ''player_one_team'', ''player_two_team'',
     ''home_team'', ''home_team_id'', ''away_team'', ''away_team_id'',
     ''home_goals'', ''away_goals'', ''game_winning'', ''empty_net'',
     ''player_one_id'', ''player_two_id'', ''game_id'', ''winning_team'',
     ''date'', ''description'']"

definition weird_events :: "string list" where
  "weird_events =
    [''Unknown'', ''Period Start'', ''Period End'', ''Game End'', ''Game Scheduled'',
     ''Period Ready'', ''Period Official'', ''Early Intermission Start'',
     ''Early Intermission End'', ''Game Official'', ''Shootout Complete'']"

definition other_events :: "string list" where
  "other_events = [''Stoppage'', ''Sub'', ''Fight'', ''Emergency Goaltender'', ''Official Challenge'']"

text \<open>The set \<^verbatim>\<open>game_events\<close> of line 261; no line of the method reads it.\<close>

definition game_events :: "string list" where
  "game_events = [''Faceoff'', ''Hit'', ''Giveaway'', ''Goal'', ''Shot'', ''Missed Shot'', ''Penalty'',
                  ''Takeaway'', ''Blocked Shot'']"

text \<open>Lines 307-326: the two participants, each as name, id and role, inside one
  \<^verbatim>\<open>try\<close> whose handler resets all six values.\<close>

definition participants :: "json \<Rightarrow> json \<Rightarrow> exn + (json \<times> json \<times> json) \<times> (json \<times> json \<times> json)" where
  "participants play empty_net =
     except_KeyError
       (bnd (py_getitem play ''players'') (\<lambda>ps.
        bnd (py_index ps 0) (\<lambda>first.
        bnd (getpath first [''player'', ''fullName'']) (\<lambda>player_one.
        bnd (getpath first [''player'', ''id'']) (\<lambda>id1.
        bnd (py_int id1) (\<lambda>player_one_id.
        bnd (py_getitem first ''playerType'') (\<lambda>player_one_role.
        if truthy empty_net
        then Inr ((player_one, JInt player_one_id, player_one_role), (JNone, JNone, JNone))
        else
        bnd (py_index ps (- 1)) (\<lambda>lst.
        bnd (getpath lst [''player'', ''fullName'']) (\<lambda>last_name.
        if py_eq last_name player_one
        then Inr ((player_one, JInt player_one_id, player_one_role), (JNone, JNone, JNone))
        else
        bnd (py_getitem lst ''player'') (\<lambda>temp.
        bnd (py_getitem temp ''fullName'') (\<lambda>player_two.
        bnd (py_getitem temp ''id'') (\<lambda>id2.
        bnd (py_int id2) (\<lambda>player_two_id.
        bnd (py_getitem lst ''playerType'') (\<lambda>player_two_role.
        Inr ((player_one, JInt player_one_id, player_one_role),
             (player_two, JInt player_two_id, player_two_role))))))))))))))))
       (Inr ((JNone, JNone, JNone), (JNone, JNone, JNone)))"

text \<open>A participant entry with its name, its numeric id and its role tag.\<close>

definition entry_is :: "json \<Rightarrow> json \<Rightarrow> int \<Rightarrow> json \<Rightarrow> bool" where
  "entry_is e name pid role \<longleftrightarrow>
     getpath e [''player'', ''fullName''] = Inr name \<and>
     bnd (getpath e [''player'', ''id'']) py_int = Inr pid \<and>
     py_getitem e ''playerType'' = Inr role"

text \<open>Lines 266-270: whether the play is skipped, by the first \<^verbatim>\<open>continue\<close> or by
  the second.\<close>

definition skip_play :: "json \<Rightarrow> exn + bool" where
  "skip_play play =
     bnd (getpath play [''result'', ''event'']) (\<lambda>ev.
     bnd (in_set ev weird_events) (\<lambda>weird.
     if weird then Inr True
     else
     bnd (getpath play [''result'', ''event'']) (\<lambda>ev'.
     in_set ev' other_events)))"

text \<open>The body of the loop of \<^verbatim>\<open>makeDataFrames\<close> (lines 266-343) for one play: \<open>None\<close>
  when the play is skipped by a \<^verbatim>\<open>continue\<close>, the row otherwise.\<close>

definition play_row :: "Game \<Rightarrow> json \<Rightarrow> exn + cell list option" where
  "play_row g play =
     bnd (skip_play play) (\<lambda>skip.
     if skip then Inr None
     else
     bnd (getpath play [''result'', ''eventTypeId'']) (\<lambda>ety.
     bnd (py_lower ety) (\<lambda>event.
     bnd (getpath play [''result'', ''description'']) (\<lambda>description.
     bnd (getpath play [''about'', ''period'']) (\<lambda>period.
     bnd (getpath play [''about'', ''periodTimeRemaining'']) (\<lambda>period_time_remaining.
     bnd (getpath play [''about'', ''goals'']) (\<lambda>score.
     bnd (py_getitem score ''home'') (\<lambda>hg.
     bnd (py_getitem score ''away'') (\<lambda>ag.
     bnd (except_KeyError (bnd (coords_array play) (\<lambda>arr. Inr (Arr arr))) (Inr NaN)) (\<lambda>coords.
     bnd (except_KeyError
            (bnd (getpath play [''result'', ''emptyNet'']) (\<lambda>en.
             bnd (getpath play [''result'', ''gameWinningGoal'']) (\<lambda>gw. Inr (en, gw))))
            (Inr (JNone, JNone))) (\<lambda>(empty_net, game_winning).
     bnd (except_KeyError
            (bnd (getpath play [''result'', ''strength'', ''name'']) (\<lambda>n.
             bnd (py_lower n) (\<lambda>s. Inr (JStr s))))
            (Inr JNone)) (\<lambda>strength.
     bnd (except_KeyError (getpath play [''result'', ''secondaryType'']) (Inr JNone)) (\<lambda>secondary_type.
     bnd (participants play empty_net)
       (\<lambda>((player_one, player_one_id, player_one_role),
           (player_two, player_two_id, player_two_role)).
     bnd (getpath play [''team'', ''triCode'']) (\<lambda>player_one_team.
     let player_two_team = other_team (home g) (away g) player_one_team in
     Inr (Some
       [Obj (JStr event), Obj secondary_type, Obj player_one, Obj player_one_role,
        Obj player_two, Obj player_two_role, coords, Obj period,
        Obj period_time_remaining, Obj player_one_team, Obj player_two_team,
        Obj (home g), Obj (home_id g), Obj (away g), Obj (away_id g),
        Obj hg, Obj ag, Obj game_winning, Obj empty_net,
        Obj player_one_id, Obj player_two_id,
        Obj (case game_id g of None \<Rightarrow> JNone | Some s \<Rightarrow> JStr s), Obj (winner g),
        Obj (date g), Obj description]))))))))))))))))"

fun play_rows :: "Game \<Rightarrow> json list \<Rightarrow> exn + cell list list" where
  "play_rows g [] = Inr []"
| "play_rows g (p # ps) =
     bnd (play_row g p) (\<lambda>r.
     bnd (play_rows g ps) (\<lambda>rs. Inr (case r of None \<Rightarrow> rs | Some v \<Rightarrow> v # rs)))"

definition role_cols :: "string list" where
  "role_cols = [''player_one_role'', ''player_two_role'']"

definition penalty_relabel :: "(string \<times> string) list" where
  "penalty_relabel =
    [(''secondary_type'', ''penalty''), (''player_one'', ''penalty_on''),
     (''player_two'', ''drew_by''), (''player_one_team'', ''penalty_team''),
     (''player_two_team'', ''drew_by_team''), (''player_one_id'', ''penalty_on_id''),
     (''player_two_id'', ''drew_by_id'')]"

definition hit_relabel :: "(string \<times> string) list" where
  "hit_relabel =
    [(''player_one'', ''hitter''), (''player_two'', ''hittee''),
     (''player_one_team'', ''hitter_team''), (''player_two_team'', ''hittee_team''),
     (''player_one_id'', ''hitter_id''), (''player_two_id'', ''hittee_id'')]"

text \<open>
  \<^verbatim>\<open>Game.makeDataFrames\<close>: what it returns (the stored table on the early return,
  \<^verbatim>\<open>None\<close> at the end of a run) and the instance after the call. The
  \<^verbatim>\<open>rename\<close> of line 374 has no \<^verbatim>\<open>columns=\<close> and so renames row labels, of which none is
  \<^verbatim>\<open>'player_two_team'\<close>: it changes nothing.
\<close>

definition makeDataFrames ::
  "(string option \<Rightarrow> exn + json) \<Rightarrow> bool \<Rightarrow> bool \<Rightarrow> Game \<Rightarrow> exn + DataFrame option \<times> Game" where
  "makeDataFrames getLiveData relabel updateLiveData g =
     (if \<not> updateLiveData \<and> DataFrame_slot g \<noteq> None then Inr (DataFrame_slot g, g)
      else
      bnd (refresh getLiveData updateLiveData g) (\<lambda>g1.
      bnd (getpath (live_data g1) [''plays'', ''allPlays'']) (\<lambda>plays.
      bnd (py_iter plays) (\<lambda>ps.
      bnd (play_rows g1 ps) (\<lambda>data.
      bnd (pd_DataFrame data event_cols) (\<lambda>df.
      let shots = pd_concat (map (where_event df) [''shot'', ''missed_shot'', ''blocked_shot'', ''goal'']) in
      bnd (df_drop [''empty_net'', ''game_winning''] (where_event df ''penalty'')) (\<lambda>pen.
      bnd (if relabel then df_drop role_cols (df_rename penalty_relabel pen) else Inr pen) (\<lambda>pen'.
      bnd (df_drop [''secondary_type'', ''empty_net'', ''game_winning'', ''player_one_role'',
                    ''player_two'', ''player_two_role'', ''player_two_id'']
             (pd_concat (map (where_event df) [''giveaway'', ''takeaway'']))) (\<lambda>turnover.
      bnd (df_drop [''secondary_type'', ''empty_net'', ''game_winning''] (where_event df ''hit'')) (\<lambda>hit.
      bnd (if relabel then df_drop role_cols (df_rename hit_relabel hit) else Inr hit) (\<lambda>hit'.
      Inr (None, g1\<lparr>DataFrame_slot := Some df, shot_data := Some shots,
                     penalty_data := Some pen', turnover_data := Some turnover,
                     hit_data := Some hit'\<rparr>))))))))))))"

section \<open>Example documents\<close>

text \<open>A client that answers every request with the document \<open>doc\<close>.\<close>

definition serving :: "json \<Rightarrow> string option \<Rightarrow> exn + json" where
  "serving doc gid = Inr doc"

text \<open>A feed of a game in Boston against the New York Rangers, with the keys the
  constructor reads: the linescore goals \<open>hg\<close> and \<open>ag\<close> and the plays \<open>plays\<close>.\<close>

definition example_stats :: "int \<Rightarrow> int \<Rightarrow> json" where
  "example_stats goals shots =
     JDict [(''goals'', JInt goals), (''pim'', JInt 6), (''shots'', JInt shots),
            (''powerPlayPercentage'', JStr ''25.0''), (''powerPlayGoals'', JFloat 1),
            (''powerPlayOpportunities'', JFloat 4), (''faceOffWinPercentage'', JStr ''51.7''),
            (''blocked'', JInt 12), (''takeaways'', JInt 7), (''giveaways'', JInt 9),
            (''hits'', JInt 21)]"

definition example_side :: "string \<Rightarrow> int \<Rightarrow> json \<Rightarrow> json" where
  "example_side tri tid stats =
     JDict [(''team'', JDict [(''id'', JInt tid), (''triCode'', JStr tri)]),
            (''teamStats'', JDict [(''teamSkaterStats'', stats)])]"

definition example_feed :: "int \<Rightarrow> int \<Rightarrow> json list \<Rightarrow> json" where
  "example_feed hg ag plays =
     JDict [(''boxscore'', JDict [(''teams'', JDict
               [(''home'', example_side ''BOS'' 6 (example_stats hg 30)),
                (''away'', example_side ''NYR'' 3 (example_stats ag 25))])]),
            (''linescore'', JDict [(''teams'', JDict
               [(''home'', JDict [(''goals'', JInt hg)]),
                (''away'', JDict [(''goals'', JInt ag)])])]),
            (''plays'', JDict
               [(''allPlays'', JList plays),
                (''currentPlay'',
                 JDict [(''about'', JDict [(''dateTime'', JStr ''2019-03-27T23:00:00Z'')])])])]"

definition example_player :: "string \<Rightarrow> string \<Rightarrow> int \<Rightarrow> json" where
  "example_player role name pid =
     JDict [(''playerType'', JStr role),
            (''player'', JDict [(''fullName'', JStr name), (''id'', JInt pid)])]"

text \<open>The blocked shot of the specification's example scenario.\<close>

definition spec_blocked_shot :: json where
  "spec_blocked_shot =
     JDict [(''result'', JDict [(''eventTypeId'', JStr ''BLOCKED_SHOT'')]),
            (''team'', JDict [(''triCode'', JStr ''BOS'')]),
            (''players'', JList [example_player ''Shooter'' ''A'' 11,
                                 example_player ''Blocker'' ''B'' 22]),
            (''coordinates'', JDict [(''x'', JInt 10), (''y'', JInt (- 5))]),
            (''about'', JDict [(''period'', JInt 2), (''periodTime'', JStr ''05:00'')])]"

text \<open>A play with the keys both methods read: its two type strings, its players and
  whatever else \<open>extra\<close> holds at the top level (the team, the coordinates).\<close>

definition example_play :: "string \<Rightarrow> string \<Rightarrow> int \<Rightarrow> json list \<Rightarrow> (string \<times> json) list \<Rightarrow> json" where
  "example_play ev ety period players extra =
     JDict ([(''result'', JDict [(''event'', JStr ev), (''eventTypeId'', JStr ety),
                                 (''description'', JStr ''a play'')]),
             (''about'', JDict [(''period'', JInt period), (''periodTime'', JStr ''05:00''),
                                (''periodTimeRemaining'', JStr ''15:00''),
                                (''goals'', JDict [(''home'', JInt 1), (''away'', JInt 0)])]),
             (''players'', JList players)] @ extra)"


definition bos :: "(string \<times> json) list" where
  "bos = [(''team'', JDict [(''triCode'', JStr ''BOS'')])]"

definition at_10_5 :: "(string \<times> json) list" where
  "at_10_5 = [(''coordinates'', JDict [(''x'', JFloat 10), (''y'', JFloat (- 5))])]"

definition sparse_play :: json where
  "sparse_play =
     JDict ([(''result'', JDict [(''event'', JStr ''Hit''), (''eventTypeId'', JStr ''HIT''),
                                 (''description'', JStr ''a play'')]),
             (''about'', JDict [(''period'', JInt 1), (''periodTimeRemaining'', JStr ''15:00''),
                                (''goals'', JDict [(''home'', JInt 1), (''away'', JInt 0)])]),
             (''team'', JDict [(''triCode'', JStr ''BOS'')])] @ at_10_5)"


section \<open>Properties of team.py\<close>

lemma bnd_Inl [simp]: "bnd (Inl e) f = Inl e"
  by (simp add: bnd_def)

lemma bnd_Inr [simp]: "bnd (Inr v) f = f v"
  by (simp add: bnd_def)

lemma bnd_eq_Inr: "bnd m f = Inr r \<longleftrightarrow> (\<exists>v. m = Inr v \<and> f v = Inr r)"
  by (cases m) simp_all

lemma bnd_eq_Inl: "bnd m f = Inl e \<longleftrightarrow> m = Inl e \<or> (\<exists>v. m = Inr v \<and> f v = Inl e)"
  by (cases m) simp_all

text \<open>
  C10. A string argument of at most two characters, the default \<^verbatim>\<open>'10'\<close> and the
  string of any numeric team code among them, takes neither branch of the conversion:
  \<^verbatim>\<open>self.team_id\<close> stays unassigned and the constructor fails with an AttributeError
  where it reads the attribute for the roster request, whatever the roster client would
  answer. Only integers and strings of more than two characters are converted.
\<close>

theorem short_team_id_never_assigned:
  "(length s \<le> 2 \<longrightarrow>
      convert_team_id (AStr s) = Inr None \<and>
      Team_init getTeamRoster (AStr s) season_arg = Inl AttributeError) \<and>
   (convert_team_id a = Inr (Some v) \<longrightarrow>
      (\<exists>n. a = AInt n) \<or> (\<exists>t. a = AStr t \<and> length t > 2))"
  by (cases a) (auto simp: convert_team_id_def Team_init_def get_attr_def split: if_splits)

theorem short_team_id_never_assigned_witness:
  "length ''10'' \<le> 2 \<and>
   convert_team_id (AStr ''10'') = Inr None \<and>
   Team_init (\<lambda>t s. Inr (JList [])) (AStr ''10'') None = Inl AttributeError \<and>
   convert_team_id (AInt 6) = Inr (Some ''6'')"
proof -
  have conv: "convert_team_id (AInt 6) = Inr (Some ''6'')"
    by code_simp
  show ?thesis
    using short_team_id_never_assigned [of "''10''" "\<lambda>t s. Inr (JList [])" None "AInt 6" "''6''"] conv
    by simp
qed

section \<open>Properties of the constructor of game.py\<close>

text \<open>What a successful run of the loop over the statistics leaves in the two rows:
  the cells appended to the home row are those appended to the away row, swapped in
  pairs.\<close>

lemma append_stats_mirrored:
  "append_stats stats ks (hrow, arow) = Inr (hrow', arow') \<Longrightarrow>
   \<exists>hs as. hrow' = hrow @ hs \<and> arow' = arow @ as \<and> length hs = length as \<and>
     (\<forall>k. 2 * k + 1 < length hs \<longrightarrow> hs ! (2 * k) = as ! (2 * k + 1) \<and> hs ! (2 * k + 1) = as ! (2 * k))"
proof (induction ks arbitrary: hrow arow)
  case Nil
  then show ?case by simp
next
  case (Cons stat rest)
  from Cons.prems obtain hv av where
    rec: "append_stats stats rest (hrow @ [Obj hv, Obj av], arow @ [Obj av, Obj hv]) = Inr (hrow', arow')"
    by (auto simp: bnd_eq_Inr)
  from Cons.IH [OF rec] obtain hs as where
    h: "hrow' = (hrow @ [Obj hv, Obj av]) @ hs" and a: "arow' = (arow @ [Obj av, Obj hv]) @ as"
    and len: "length hs = length as"
    and mir: "\<forall>k. 2 * k + 1 < length hs \<longrightarrow> hs ! (2 * k) = as ! (2 * k + 1) \<and> hs ! (2 * k + 1) = as ! (2 * k)"
    by blast
  have "\<forall>k. 2 * k + 1 < length ([Obj hv, Obj av] @ hs) \<longrightarrow>
          ([Obj hv, Obj av] @ hs) ! (2 * k) = ([Obj av, Obj hv] @ as) ! (2 * k + 1) \<and>
          ([Obj hv, Obj av] @ hs) ! (2 * k + 1) = ([Obj av, Obj hv] @ as) ! (2 * k)"
  proof (intro allI impI)
    fix k assume k: "2 * k + 1 < length ([Obj hv, Obj av] @ hs)"
    show "([Obj hv, Obj av] @ hs) ! (2 * k) = ([Obj av, Obj hv] @ as) ! (2 * k + 1) \<and>
          ([Obj hv, Obj av] @ hs) ! (2 * k + 1) = ([Obj av, Obj hv] @ as) ! (2 * k)"
    proof (cases k)
      case 0
      then show ?thesis by simp
    next
      case (Suc j)
      with k have "2 * j + 1 < length hs" by simp
      with mir have "hs ! (2 * j) = as ! (2 * j + 1) \<and> hs ! (2 * j + 1) = as ! (2 * j)" by blast
      with Suc show ?thesis by simp
    qed
  qed
  with h a len show ?case
    by (intro exI [of _ "[Obj hv, Obj av] @ hs"] exI [of _ "[Obj av, Obj hv] @ as"]) simp
qed

text \<open>What a successful construction says about the instance.\<close>

lemma Game_init_agg:
  assumes "Game_init getLiveData gid = Inr g"
  shows "\<exists>stats ks h0 a0 hrow arow.
           append_stats stats ks (h0, a0) = Inr (hrow, arow) \<and>
           pd_DataFrame [hrow, arow] agg_cols = Inr (agg_stats g) \<and>
           length h0 = 6 \<and> length a0 = 6 \<and>
           h0 ! 4 = Obj (JBool True) \<and> a0 ! 4 = Obj (JBool False)"
  using assms
  apply (simp only: Game_init_def Let_def case_prod_beta bnd_eq_Inr)
  apply (elim exE conjE)
  apply (clarsimp simp del: getpath.simps simp add: set_winner_def bnd_eq_Inr)
  apply (intro exI conjI)
       apply assumption
      apply simp_all
  done

lemma Game_init_slots:
  assumes "Game_init getLiveData gid = Inr g"
  shows "shotData_slot g = None \<and> DataFrame_slot g = None"
  using assms
  apply (simp only: Game_init_def Let_def case_prod_beta bnd_eq_Inr)
  apply (elim exE conjE)
  apply (clarsimp simp del: getpath.simps simp add: set_winner_def bnd_eq_Inr)
  done

text \<open>The constructor on the example feed. Both goal attributes hold the home goals.\<close>

lemma init_example:
  "\<exists>agg. Game_init (serving (example_feed hg ag plays)) gid =
     Inr \<lparr>game_id = map_option str_of_arg gid, live_data = example_feed hg ag plays,
          home = JStr ''BOS'', away = JStr ''NYR'', home_id = JInt 6, away_id = JInt 3,
          home_goals = JInt hg, away_goals = JInt hg, final = True, winner = JStr ''NYR'',
          date = JStr ''2019-03-27'', agg_stats = agg, shotData_slot = None,
          DataFrame_slot = None, shot_data = None, penalty_data = None,
          turnover_data = None, hit_data = None\<rparr>"
  by (simp add: Game_init_def serving_def example_feed_def example_side_def example_stats_def
      set_winner_def skater_stat_def pd_DataFrame_def agg_cols_def)

text \<open>
  C8. The boxscore table of every game has exactly two rows, the home row first, and
  for every tracked statistic \<open>S\<close> the home row's \<open>S_for\<close> is the away row's
  \<open>S_against\<close> and the away row's \<open>S_for\<close> is the home row's \<open>S_against\<close>.
\<close>

theorem boxscore_for_against:
  assumes "Game_init getLiveData gid = Inr g"
  shows "length (rows (agg_stats g)) = 2 \<and>
         cell_at (agg_stats g) 0 ''home'' = Some (Obj (JBool True)) \<and>
         cell_at (agg_stats g) 1 ''home'' = Some (Obj (JBool False)) \<and>
         (\<forall>S \<in> set tracked_stats. \<exists>x y.
            cell_at (agg_stats g) 0 (S @ ''_for'') = Some x \<and>
            cell_at (agg_stats g) 1 (S @ ''_against'') = Some x \<and>
            cell_at (agg_stats g) 1 (S @ ''_for'') = Some y \<and>
            cell_at (agg_stats g) 0 (S @ ''_against'') = Some y)"
proof -
  from Game_init_agg [OF assms] obtain stats ks h0 a0 hrow arow where
    app: "append_stats stats ks (h0, a0) = Inr (hrow, arow)" and
    df: "pd_DataFrame [hrow, arow] agg_cols = Inr (agg_stats g)" and
    l0: "length h0 = 6" "length a0 = 6" and
    flag: "h0 ! 4 = Obj (JBool True)" "a0 ! 4 = Obj (JBool False)"
    by blast
  from append_stats_mirrored [OF app] obtain hs as where
    h: "hrow = h0 @ hs" and a: "arow = a0 @ as" and len: "length hs = length as" and
    mir: "\<forall>k. 2 * k + 1 < length hs \<longrightarrow>
            hs ! (2 * k) = as ! (2 * k + 1) \<and> hs ! (2 * k + 1) = as ! (2 * k)"
    by blast
  from df have agg: "agg_stats g = \<lparr>columns = agg_cols, rows = [hrow, arow]\<rparr>"
    and w: "length hrow = 28" "length arow = 28"
    by (auto simp: pd_DataFrame_def agg_cols_def split: if_splits)
  from w h a l0 have n: "length hs = 22" "length as = 22" by simp_all
  have m: "hs ! (2 * k) = as ! (2 * k + 1) \<and> hs ! (2 * k + 1) = as ! (2 * k)" if "k < 11" for k
    using mir that n by simp
  from m [of 0] m [of 1] m [of 2] m [of 3] m [of 4] m [of 5] m [of 6] m [of 7] m [of 8]
    m [of 9] m [of 10]
  have eqs: "hs ! 0 = as ! 1" "hs ! 1 = as ! 0" "hs ! 2 = as ! 3" "hs ! 3 = as ! 2"
    "hs ! 4 = as ! 5" "hs ! 5 = as ! 4" "hs ! 6 = as ! 7" "hs ! 7 = as ! 6"
    "hs ! 8 = as ! 9" "hs ! 9 = as ! 8" "hs ! 10 = as ! 11" "hs ! 11 = as ! 10"
    "hs ! 12 = as ! 13" "hs ! 13 = as ! 12" "hs ! 14 = as ! 15" "hs ! 15 = as ! 14"
    "hs ! 16 = as ! 17" "hs ! 17 = as ! 16" "hs ! 18 = as ! 19" "hs ! 19 = as ! 18"
    "hs ! 20 = as ! 21" "hs ! 21 = as ! 20"
    by simp_all
  show ?thesis
    using eqs flag l0 n
    by (simp add: agg h a cell_at_def field_def agg_cols_def tracked_stats_def nth_append eval_nat_numeral)
qed

theorem boxscore_for_against_witness:
  "\<exists>g. Game_init (serving (example_feed 3 1 [])) None = Inr g \<and>
       length (rows (agg_stats g)) = 2 \<and>
       (\<exists>x y. cell_at (agg_stats g) 0 ''goals_for'' = Some x \<and>
              cell_at (agg_stats g) 1 ''goals_against'' = Some x \<and>
              cell_at (agg_stats g) 1 ''goals_for'' = Some y \<and>
              cell_at (agg_stats g) 0 ''goals_against'' = Some y)"
proof -
  from init_example [of 3 1 "[]" None] obtain g where
    init: "Game_init (serving (example_feed 3 1 [])) None = Inr g"
    by blast
  have "''goals'' \<in> set tracked_stats"
    by (simp add: tracked_stats_def)
  with boxscore_for_against [OF init] init show ?thesis
    by (intro exI [of _ g]) force
qed

text \<open>
  C1, as the code has it. The claim reads: whenever the home goals are not strictly less
  than the away goals the winner is the home team, ties included. The constructor
  declares the home team the winner exactly when its \<open>home_goals\<close> attribute is
  strictly greater than its \<open>away_goals\<close> attribute, and the away team otherwise: on
  equal goals the winner is the away team.
\<close>

theorem winner_from_goal_attributes:
  assumes "Game_init getLiveData gid = Inr g"
  shows "(\<exists>more. py_gt (home_goals g) (away_goals g) = Inr more \<and>
            winner g = (if more then home g else away g)) \<and>
         (\<forall>x y. home_goals g = JInt x \<and> away_goals g = JInt y \<longrightarrow>
            winner g = (if y < x then home g else away g))"
  using assms
  apply (simp only: Game_init_def Let_def case_prod_beta bnd_eq_Inr)
  apply (elim exE conjE)
  apply (clarsimp simp del: getpath.simps simp add: set_winner_def bnd_eq_Inr)
  apply (auto split: if_splits)
  done

theorem winner_from_goal_attributes_witness:
  "\<exists>g. Game_init (serving (example_feed 2 2 [])) None = Inr g \<and>
       home_goals g = JInt 2 \<and> away_goals g = JInt 2 \<and> winner g = away g"
proof -
  from init_example [of 2 2 "[]" None] obtain g where
    init: "Game_init (serving (example_feed 2 2 [])) None = Inr g" and
    goals: "home_goals g = JInt 2" "away_goals g = JInt 2"
    by force
  from winner_from_goal_attributes [OF init] goals have "winner g = away g"
    by simp
  with init goals show ?thesis
    by blast
qed

text \<open>A game tied at two goals each, in Boston: the claim names Boston the winner, the
  constructor names the Rangers.\<close>

theorem tie_goes_to_away_counterexample:
  "getpath (example_feed 2 2 []) [''linescore'', ''teams'', ''home'', ''goals''] = Inr (JInt 2) \<and>
   getpath (example_feed 2 2 []) [''linescore'', ''teams'', ''away'', ''goals''] = Inr (JInt 2) \<and>
   map_sum id home (Game_init (serving (example_feed 2 2 [])) None) = Inr (JStr ''BOS'') \<and>
   map_sum id winner (Game_init (serving (example_feed 2 2 [])) None) = Inr (JStr ''NYR'')"
proof -
  from init_example [of 2 2 "[]" None] obtain g where
    "Game_init (serving (example_feed 2 2 [])) None = Inr g" "home g = JStr ''BOS''"
    "winner g = JStr ''NYR''"
    by force
  then show ?thesis
    by (simp add: example_feed_def)
qed

section \<open>Properties of the shot table\<close>

lemma py_eq_JStr [simp]: "py_eq x (JStr s) = (x = JStr s)"
  by (cases x) auto

lemma py_eq_JStr_left [simp]: "py_eq (JStr s) x = (x = JStr s)"
  by (cases x) auto

lemma in_shotIDs:
  "in_list ety shotIDs \<longleftrightarrow>
     ety = JStr ''SHOT'' \<or> ety = JStr ''MISSED_SHOT'' \<or> ety = JStr ''BLOCKED_SHOT'' \<or>
     ety = JStr ''GOAL''"
  by (simp add: in_list_def shotIDs_def)

lemma split0_lower_shotIDs:
  "split0_lower (JStr ''SHOT'') = Inr ''shot''"
  "split0_lower (JStr ''MISSED_SHOT'') = Inr ''missed''"
  "split0_lower (JStr ''BLOCKED_SHOT'') = Inr ''blocked''"
  "split0_lower (JStr ''GOAL'') = Inr ''goal''"
  by code_simp+

lemma shot_result:
  assumes "in_list ety shotIDs" and "split0_lower ety = Inr res"
  shows "(ety = JStr ''SHOT'' \<and> res = ''shot'') \<or> (ety = JStr ''MISSED_SHOT'' \<and> res = ''missed'') \<or>
         (ety = JStr ''BLOCKED_SHOT'' \<and> res = ''blocked'') \<or> (ety = JStr ''GOAL'' \<and> res = ''goal'')"
  using assms unfolding in_shotIDs
  by (elim disjE) (simp_all add: split0_lower_shotIDs del: split0_lower.simps)

lemma np_array_pair:
  assumes "np_array [vx, vy] = Inr arr" and "num_val vx = Some x" and "num_val vy = Some y"
  shows "arr_values arr = [x, y]"
  using assms
  by (cases vx; cases vy) (auto simp: np_array_def split: if_splits)

lemma np_neg_values:
  assumes "np_neg arr = Inr arr'"
  shows "arr_values arr' = map uminus (arr_values arr)"
  using assms
  by (cases arr) (auto simp: comp_def)

text \<open>What a row of the shot table says about the event it was built from.\<close>

lemma if_None_eq_Some:
  "((if c then Inr None else X) = Inr (Some r)) = (\<not> c \<and> X = Inr (Some r))"
  by simp

lemma shot_row_SomeD:
  assumes "shot_row h a ev = Inr (Some r)"
  shows "\<exists>ety result tc shotType coords period periodTime players ps so even_period coords'.
     getpath ev [''result'', ''eventTypeId''] = Inr ety \<and> in_list ety shotIDs \<and>
     split0_lower ety = Inr result \<and>
     getpath ev [''team'', ''triCode''] = Inr tc \<and>
     except_KeyError (getpath ev [''result'', ''secondaryType'']) (Inr JNone) = Inr shotType \<and>
     except_KeyError (bnd (coords_array ev) (\<lambda>arr. Inr (Some arr))) (Inr None) = Inr coords \<and>
     getpath ev [''about'', ''period''] = Inr period \<and>
     getpath ev [''about'', ''periodTime''] = Inr periodTime \<and>
     py_getitem ev ''players'' = Inr players \<and> py_iter players = Inr ps \<and>
     involved ps (JNone, JNone) = Inr so \<and>
     mod2_is_zero period = Inr even_period \<and>
     (if even_period then flip_coords coords else Inr coords) = Inr coords' \<and>
     r = [Obj (fst so), Obj (JStr result), Obj (snd so), Obj shotType, coords_cell coords',
          Obj period, Obj periodTime,
          Obj (fst (shot_teams h a result tc)), Obj (snd (shot_teams h a result tc))]"
  using assms
  apply (simp only: shot_row_def Let_def case_prod_beta bnd_eq_Inr if_None_eq_Some)
  apply (elim exE conjE)
  apply (simp only: sum.inject option.inject)
  apply (intro exI conjI)
  apply (assumption | simp)+
  done

text \<open>The row of the specification's blocked shot, with Boston at home and with the
  Rangers at home.\<close>

lemma spec_example_row:
  "shot_row (JStr ''BOS'') (JStr ''NYR'') spec_blocked_shot =
     Inr (Some [Obj (JStr ''A''), Obj (JStr ''blocked''), Obj (JStr ''B''), Obj JNone,
                Arr (IntArr [- 10, 5]), Obj (JInt 2), Obj (JStr ''05:00''),
                Obj (JStr ''NYR''), Obj (JStr ''BOS'')])"
  "shot_row (JStr ''NYR'') (JStr ''BOS'') spec_blocked_shot =
     Inr (Some [Obj (JStr ''A''), Obj (JStr ''blocked''), Obj (JStr ''B''), Obj JNone,
                Arr (IntArr [- 10, 5]), Obj (JInt 2), Obj (JStr ''05:00''),
                Obj (JStr ''NYR''), Obj (JStr ''BOS'')])"
  by code_simp+

text \<open>
  C4. In a row of the shot table the team columns depend on the kind of shot: for a
  blocked shot the event's team code is the other (blocking) team and the shooter's team
  is the game's other team; for every other kind the event's team code is the shooter's
  team and the other team is the game's other team. The game's other team of a code is
  the away code when the code is the home code, and the home code otherwise. The blocked
  shot of the specification's example, in a game of Boston and the Rangers, gives shooter
  A, result blocked, other B, shooter team NYR, other team BOS, coordinates (-10, 5) and
  period 2.
\<close>

theorem shot_team_attribution:
  assumes "shot_row h a ev = Inr (Some r)"
    and "getpath ev [''result'', ''eventTypeId''] = Inr ety"
    and "getpath ev [''team'', ''triCode''] = Inr tc"
  shows "(if ety = JStr ''BLOCKED_SHOT''
          then field shot_cols r ''otherTeam'' = Some (Obj tc) \<and>
               field shot_cols r ''shooterTeam'' = Some (Obj (other_team h a tc))
          else field shot_cols r ''shooterTeam'' = Some (Obj tc) \<and>
               field shot_cols r ''otherTeam'' = Some (Obj (other_team h a tc))) \<and>
         other_team (JStr hc) (JStr ac) (JStr t) = (if t = hc then JStr ac else JStr hc) \<and>
         shot_row (JStr ''BOS'') (JStr ''NYR'') spec_blocked_shot =
           Inr (Some [Obj (JStr ''A''), Obj (JStr ''blocked''), Obj (JStr ''B''), Obj JNone,
                      Arr (IntArr [- 10, 5]), Obj (JInt 2), Obj (JStr ''05:00''),
                      Obj (JStr ''NYR''), Obj (JStr ''BOS'')]) \<and>
         shot_row (JStr ''NYR'') (JStr ''BOS'') spec_blocked_shot =
           shot_row (JStr ''BOS'') (JStr ''NYR'') spec_blocked_shot"
proof -
  from shot_row_SomeD [OF assms(1)] assms(2,3) obtain result so shotType coords' period periodTime where
    ety: "in_list ety shotIDs" "split0_lower ety = Inr result" and
    r: "r = [Obj (fst so), Obj (JStr result), Obj (snd so), Obj shotType, coords_cell coords',
          Obj period, Obj periodTime,
          Obj (fst (shot_teams h a result tc)), Obj (snd (shot_teams h a result tc))]"
    by auto
  from shot_result [OF ety] have "(result = ''blocked'') = (ety = JStr ''BLOCKED_SHOT'')"
    by auto
  then have attribution: "if ety = JStr ''BLOCKED_SHOT''
          then field shot_cols r ''otherTeam'' = Some (Obj tc) \<and>
               field shot_cols r ''shooterTeam'' = Some (Obj (other_team h a tc))
          else field shot_cols r ''shooterTeam'' = Some (Obj tc) \<and>
               field shot_cols r ''otherTeam'' = Some (Obj (other_team h a tc))"
    by (simp add: r field_def shot_cols_def shot_teams_def)
  have other: "other_team (JStr hc) (JStr ac) (JStr t) = (if t = hc then JStr ac else JStr hc)"
    by (auto simp: other_team_def)
  from attribution other spec_example_row show ?thesis
    by simp
qed

theorem shot_team_attribution_witness:
  "shot_row (JStr ''BOS'') (JStr ''NYR'') spec_blocked_shot =
     Inr (Some [Obj (JStr ''A''), Obj (JStr ''blocked''), Obj (JStr ''B''), Obj JNone,
                Arr (IntArr [- 10, 5]), Obj (JInt 2), Obj (JStr ''05:00''),
                Obj (JStr ''NYR''), Obj (JStr ''BOS'')]) \<and>
   getpath spec_blocked_shot [''result'', ''eventTypeId''] = Inr (JStr ''BLOCKED_SHOT'') \<and>
   getpath spec_blocked_shot [''team'', ''triCode''] = Inr (JStr ''BOS'') \<and>
   field shot_cols [Obj (JStr ''A''), Obj (JStr ''blocked''), Obj (JStr ''B''), Obj JNone,
                Arr (IntArr [- 10, 5]), Obj (JInt 2), Obj (JStr ''05:00''),
                Obj (JStr ''NYR''), Obj (JStr ''BOS'')] ''otherTeam'' = Some (Obj (JStr ''BOS'')) \<and>
   field shot_cols [Obj (JStr ''A''), Obj (JStr ''blocked''), Obj (JStr ''B''), Obj JNone,
                Arr (IntArr [- 10, 5]), Obj (JInt 2), Obj (JStr ''05:00''),
                Obj (JStr ''NYR''), Obj (JStr ''BOS'')] ''shooterTeam'' = Some (Obj (JStr ''NYR''))"
proof -
  have e: "getpath spec_blocked_shot [''result'', ''eventTypeId''] = Inr (JStr ''BLOCKED_SHOT'')"
    and t: "getpath spec_blocked_shot [''team'', ''triCode''] = Inr (JStr ''BOS'')"
    by (simp_all add: spec_blocked_shot_def)
  from shot_team_attribution [OF spec_example_row(1) e t] e t spec_example_row(1)
  show ?thesis
    by (simp add: other_team_def)
qed

text \<open>The coordinates of an event that has them, and what the flip leaves of an array.\<close>

lemma np_array_not_KeyError: "np_array vs \<noteq> Inl KeyError"
  by (simp add: np_array_def)

lemma coords_of_dict:
  assumes "py_getitem ev ''coordinates'' = Inr (JDict kvs)"
    and "except_KeyError (bnd (coords_array ev) (\<lambda>arr. Inr (Some arr))) (Inr None) = Inr coords"
  shows "\<exists>arr. np_array (map snd kvs) = Inr arr \<and> coords = Some arr"
proof (cases "np_array (map snd kvs)")
  case (Inl e)
  with assms np_array_not_KeyError [of "map snd kvs"] show ?thesis
    by (cases e) (simp_all add: coords_array_def except_KeyError_def)
next
  case (Inr arr)
  with assms show ?thesis
    by (simp add: coords_array_def except_KeyError_def)
qed

lemma flip_coords_Some:
  assumes "flip_coords (Some arr) = Inr c"
  shows "\<exists>arr'. np_neg arr = Inr arr' \<and> c = Some arr'"
  using assms
  by (cases arr) (simp_all add: flip_coords_def neg_coords_def)

text \<open>A shot at (10.0, -5.0), in the second and in the third period.\<close>

lemma float_shot_rows:
  "shot_row (JStr ''BOS'') (JStr ''NYR'')
     (example_play ''Shot'' ''SHOT'' 2 [example_player ''Shooter'' ''A'' 11] (bos @ at_10_5)) =
     Inr (Some [Obj (JStr ''A''), Obj (JStr ''shot''), Obj JNone, Obj JNone,
                Arr (FloatArr [- 10, 5]), Obj (JInt 2), Obj (JStr ''05:00''),
                Obj (JStr ''BOS''), Obj (JStr ''NYR'')])"
  "shot_row (JStr ''BOS'') (JStr ''NYR'')
     (example_play ''Shot'' ''SHOT'' 3 [example_player ''Shooter'' ''A'' 11] (bos @ at_10_5)) =
     Inr (Some [Obj (JStr ''A''), Obj (JStr ''shot''), Obj JNone, Obj JNone,
                Arr (FloatArr [10, - 5]), Obj (JInt 3), Obj (JStr ''05:00''),
                Obj (JStr ''BOS''), Obj (JStr ''NYR'')])"
  by code_simp+

text \<open>
  C5. A row of the shot table built from an event whose coordinates are the pair \<open>x\<close>,
  \<open>y\<close> holds, in an even period, the array of \<open>-x\<close> and \<open>-y\<close>, in this order, and in an
  odd period the array of \<open>x\<close> and \<open>y\<close> unchanged.
\<close>

theorem shot_coords_flipped:
  assumes "shot_row h a ev = Inr (Some r)"
    and "py_getitem ev ''coordinates'' = Inr (JDict [(''x'', vx), (''y'', vy)])"
    and "num_val vx = Some x" and "num_val vy = Some y"
    and "getpath ev [''about'', ''period''] = Inr (JInt p)"
  shows "\<exists>stored. field shot_cols r ''coords'' = Some (Arr stored) \<and>
           arr_values stored = (if even p then [- x, - y] else [x, y])"
proof -
  from shot_row_SomeD [OF assms(1)] assms(5) obtain so result shotType coords periodTime tc
      even_period coords' where
    c: "except_KeyError (bnd (coords_array ev) (\<lambda>arr. Inr (Some arr))) (Inr None) = Inr coords" and
    m: "mod2_is_zero (JInt p) = Inr even_period" and
    f: "(if even_period then flip_coords coords else Inr coords) = Inr coords'" and
    r: "r = [Obj (fst so), Obj (JStr result), Obj (snd so), Obj shotType, coords_cell coords',
          Obj (JInt p), Obj periodTime,
          Obj (fst (shot_teams h a result tc)), Obj (snd (shot_teams h a result tc))]"
    by auto
  from coords_of_dict [OF assms(2) c] obtain arr where
    arr: "np_array [vx, vy] = Inr arr" and coords: "coords = Some arr"
    by auto
  from np_array_pair [OF arr assms(3,4)] have raw: "arr_values arr = [x, y]" .
  from m have even_period: "even_period = even p"
    by (auto simp: even_iff_mod_2_eq_zero)
  show ?thesis
  proof (cases "even p")
    case True
    with f even_period coords have "flip_coords (Some arr) = Inr coords'"
      by simp
    from flip_coords_Some [OF this] obtain arr' where
      neg: "np_neg arr = Inr arr'" and c': "coords' = Some arr'"
      by auto
    from np_neg_values [OF neg] raw have "arr_values arr' = [- x, - y]"
      by simp
    with True c' show ?thesis
      by (simp add: r field_def shot_cols_def coords_cell_def)
  next
    case False
    with f even_period coords have "coords' = Some arr"
      by simp
    with False raw show ?thesis
      by (simp add: r field_def shot_cols_def coords_cell_def)
  qed
qed

theorem shot_coords_flipped_witness:
  "py_getitem (example_play ''Shot'' ''SHOT'' 2 [example_player ''Shooter'' ''A'' 11] (bos @ at_10_5))
     ''coordinates'' = Inr (JDict [(''x'', JFloat 10), (''y'', JFloat (- 5))]) \<and>
   getpath (example_play ''Shot'' ''SHOT'' 2 [example_player ''Shooter'' ''A'' 11] (bos @ at_10_5))
     [''about'', ''period''] = Inr (JInt 2) \<and>
   (\<exists>stored.
      field shot_cols [Obj (JStr ''A''), Obj (JStr ''shot''), Obj JNone, Obj JNone,
                Arr (FloatArr [- 10, 5]), Obj (JInt 2), Obj (JStr ''05:00''),
                Obj (JStr ''BOS''), Obj (JStr ''NYR'')] ''coords'' = Some (Arr stored) \<and>
      arr_values stored = [- 10, 5]) \<and>
   (\<exists>stored.
      field shot_cols [Obj (JStr ''A''), Obj (JStr ''shot''), Obj JNone, Obj JNone,
                Arr (FloatArr [10, - 5]), Obj (JInt 3), Obj (JStr ''05:00''),
                Obj (JStr ''BOS''), Obj (JStr ''NYR'')] ''coords'' = Some (Arr stored) \<and>
      arr_values stored = [10, - 5])"
proof -
  have c2: "py_getitem (example_play ''Shot'' ''SHOT'' 2 [example_player ''Shooter'' ''A'' 11] (bos @ at_10_5))
     ''coordinates'' = Inr (JDict [(''x'', JFloat 10), (''y'', JFloat (- 5))])"
    and p2: "getpath (example_play ''Shot'' ''SHOT'' 2 [example_player ''Shooter'' ''A'' 11] (bos @ at_10_5))
     [''about'', ''period''] = Inr (JInt 2)"
    and c3: "py_getitem (example_play ''Shot'' ''SHOT'' 3 [example_player ''Shooter'' ''A'' 11] (bos @ at_10_5))
     ''coordinates'' = Inr (JDict [(''x'', JFloat 10), (''y'', JFloat (- 5))])"
    and p3: "getpath (example_play ''Shot'' ''SHOT'' 3 [example_player ''Shooter'' ''A'' 11] (bos @ at_10_5))
     [''about'', ''period''] = Inr (JInt 3)"
    by (simp_all add: example_play_def bos_def at_10_5_def)
  have x: "num_val (JFloat 10) = Some 10" and y: "num_val (JFloat (- 5)) = Some (- 5)"
    by simp_all
  from shot_coords_flipped [OF float_shot_rows(1) c2 x y p2]
    shot_coords_flipped [OF float_shot_rows(2) c3 x y p3] c2 p2
  show ?thesis
    by simp
qed

section \<open>The method shotData on an instance\<close>

text \<open>The method on an instance built from the example feed: no stored table is found,
  so the rows are computed from the plays of the feed.\<close>

lemma shotData_example:
  assumes "Game_init (serving (example_feed hg ag plays)) gid = Inr g"
  shows "shotData (serving (example_feed hg ag plays)) False g =
     bnd (shot_rows (JStr ''BOS'') (JStr ''NYR'') plays) (\<lambda>data.
     bnd (pd_DataFrame data shot_cols) (\<lambda>df. Inr (df, g)))"
proof -
  from init_example [of hg ag plays gid] assms have
    "shotData_slot g = None" "live_data g = example_feed hg ag plays"
    "home g = JStr ''BOS''" "away g = JStr ''NYR''"
    by auto
  then show ?thesis
    by (simp add: shotData_def refresh_def example_feed_def)
qed

text \<open>A shot whose event has no \<^verbatim>\<open>coordinates\<close> key, in the second and in the first
  period.\<close>

lemma shot_without_coordinates:
  "shot_row (JStr ''BOS'') (JStr ''NYR'')
     (example_play ''Shot'' ''SHOT'' 2 [example_player ''Shooter'' ''A'' 11] bos) = Inl TypeError"
  "shot_row (JStr ''BOS'') (JStr ''NYR'')
     (example_play ''Shot'' ''SHOT'' 1 [example_player ''Shooter'' ''A'' 11] bos) =
     Inr (Some [Obj (JStr ''A''), Obj (JStr ''shot''), Obj JNone, Obj JNone,
                Obj JNone, Obj (JInt 1), Obj (JStr ''05:00''),
                Obj (JStr ''BOS''), Obj (JStr ''NYR'')])"
  by code_simp+

text \<open>
  C6. The claim: for a shot in an even period whose coordinates are absent, the failing
  negation is swallowed and the row is produced with its coordinates unset. On the
  code, \<^verbatim>\<open>-None\<close> raises a TypeError, which \<^verbatim>\<open>except IndexError or TypeError\<close> does not
  catch: the call of \<^verbatim>\<open>shotData\<close> on a game with one such shot raises.
\<close>

theorem even_period_without_coordinates_raises:
  "py_getitem (example_play ''Shot'' ''SHOT'' 2 [example_player ''Shooter'' ''A'' 11] bos)
     ''coordinates'' = Inl KeyError \<and>
   getpath (example_play ''Shot'' ''SHOT'' 2 [example_player ''Shooter'' ''A'' 11] bos)
     [''about'', ''period''] = Inr (JInt 2) \<and>
   bnd (Game_init (serving (example_feed 3 1
          [example_play ''Shot'' ''SHOT'' 2 [example_player ''Shooter'' ''A'' 11] bos])) None)
       (shotData (serving (example_feed 3 1
          [example_play ''Shot'' ''SHOT'' 2 [example_player ''Shooter'' ''A'' 11] bos])) False)
     = Inl TypeError"
proof -
  from init_example [of 3 1 "[example_play ''Shot'' ''SHOT'' 2 [example_player ''Shooter'' ''A'' 11] bos]" None]
  obtain g where init: "Game_init (serving (example_feed 3 1
          [example_play ''Shot'' ''SHOT'' 2 [example_player ''Shooter'' ''A'' 11] bos])) None = Inr g"
    by blast
  have keys: "py_getitem (example_play ''Shot'' ''SHOT'' 2 [example_player ''Shooter'' ''A'' 11] bos)
     ''coordinates'' = Inl KeyError"
   "getpath (example_play ''Shot'' ''SHOT'' 2 [example_player ''Shooter'' ''A'' 11] bos)
     [''about'', ''period''] = Inr (JInt 2)"
    by (simp_all add: example_play_def bos_def)
  from init shotData_example [OF init] shot_without_coordinates(1) keys show ?thesis
    by simp
qed

text \<open>A successful call leaves \<^verbatim>\<open>self._shotData\<close> as it found it.\<close>

lemma shotData_never_stores:
  assumes "shotData getLiveData updateLiveData g = Inr (df, g')"
  shows "shotData_slot g' = shotData_slot g"
  using assms
  by (auto simp: shotData_def refresh_def bnd_eq_Inr simp del: getpath.simps split: if_splits)

text \<open>
  C9. The claim: after one call the shot table is stored in the instance's cache slot.
  On the code, a first call of \<^verbatim>\<open>shotData\<close> returns the table of one row and leaves the
  slot \<^verbatim>\<open>_shotData\<close> at \<^verbatim>\<open>None\<close>.
\<close>

theorem shot_table_never_stored:
  "map_sum id (shotData_slot \<circ> snd)
     (bnd (Game_init (serving (example_feed 3 1
            [example_play ''Shot'' ''SHOT'' 1 [example_player ''Shooter'' ''A'' 11] bos])) None)
          (shotData (serving (example_feed 3 1
            [example_play ''Shot'' ''SHOT'' 1 [example_player ''Shooter'' ''A'' 11] bos])) False))
     = Inr None \<and>
   map_sum id (rows \<circ> fst)
     (bnd (Game_init (serving (example_feed 3 1
            [example_play ''Shot'' ''SHOT'' 1 [example_player ''Shooter'' ''A'' 11] bos])) None)
          (shotData (serving (example_feed 3 1
            [example_play ''Shot'' ''SHOT'' 1 [example_player ''Shooter'' ''A'' 11] bos])) False))
     = Inr [[Obj (JStr ''A''), Obj (JStr ''shot''), Obj JNone, Obj JNone,
             Obj JNone, Obj (JInt 1), Obj (JStr ''05:00''),
             Obj (JStr ''BOS''), Obj (JStr ''NYR'')]]"
proof -
  from init_example [of 3 1 "[example_play ''Shot'' ''SHOT'' 1 [example_player ''Shooter'' ''A'' 11] bos]" None]
  obtain g where init: "Game_init (serving (example_feed 3 1
          [example_play ''Shot'' ''SHOT'' 1 [example_player ''Shooter'' ''A'' 11] bos])) None = Inr g"
    and slot: "shotData_slot g = None"
    by force
  from init slot shotData_example [OF init] shot_without_coordinates(2) show ?thesis
    by (simp add: pd_DataFrame_def shot_cols_def)
qed

section \<open>Properties of the event table\<close>

lemma list_index_first: "ps \<noteq> [] \<Longrightarrow> list_index ps 0 = Inr (hd ps)"
  by (cases ps) (simp_all add: list_index_def)

lemma list_index_last: "ps \<noteq> [] \<Longrightarrow> list_index ps (- 1) = Inr (last ps)"
  by (cases ps rule: rev_cases) (simp_all add: list_index_def nat_add_distrib)

lemma except_KeyError_Inr [simp]: "except_KeyError (Inr v) handler = Inr v"
  by (simp add: except_KeyError_def)

lemma except_KeyError_KeyError [simp]: "except_KeyError (Inl KeyError) handler = handler"
  by (simp add: except_KeyError_def)

text \<open>The two participants of a play whose first and last entries are well formed.\<close>

lemma participants_first_last:
  assumes "py_getitem play ''players'' = Inr (JList ps)" and "ps \<noteq> []"
    and "entry_is (hd ps) n1 k1 t1"
    and "truthy en \<or> entry_is (last ps) n2 k2 t2"
  shows "participants play en =
           Inr ((n1, JInt k1, t1),
                (if truthy en \<or> py_eq n2 n1 then (JNone, JNone, JNone) else (n2, JInt k2, t2)))"
  using assms
  by (auto simp: participants_def entry_is_def bnd_eq_Inr list_index_first list_index_last)

text \<open>What a row of the event table says about the play it was built from.\<close>

lemma play_row_SomeE:
  assumes "play_row g play = Inr (Some r)"
  obtains (row) ety event description period ptr score hg ag coords eg secondary_type pp tc
  where "skip_play play = Inr False"
    "getpath play [''result'', ''eventTypeId''] = Inr ety"
    "py_lower ety = Inr event"
    "getpath play [''result'', ''description''] = Inr description"
    "getpath play [''about'', ''period''] = Inr period"
    "getpath play [''about'', ''periodTimeRemaining''] = Inr ptr"
    "getpath play [''about'', ''goals''] = Inr score"
    "py_getitem score ''home'' = Inr hg"
    "py_getitem score ''away'' = Inr ag"
    "except_KeyError (bnd (coords_array play) (\<lambda>arr. Inr (Arr arr))) (Inr NaN) = Inr coords"
    "except_KeyError
       (bnd (getpath play [''result'', ''emptyNet'']) (\<lambda>en.
        bnd (getpath play [''result'', ''gameWinningGoal'']) (\<lambda>gw. Inr (en, gw))))
       (Inr (JNone, JNone)) = Inr eg"
    "except_KeyError (getpath play [''result'', ''secondaryType'']) (Inr JNone) = Inr secondary_type"
    "participants play (fst eg) = Inr pp"
    "getpath play [''team'', ''triCode''] = Inr tc"
    "r = [Obj (JStr event), Obj secondary_type, Obj (fst (fst pp)), Obj (snd (snd (fst pp))),
          Obj (fst (snd pp)), Obj (snd (snd (snd pp))), coords, Obj period,
          Obj ptr, Obj tc, Obj (other_team (home g) (away g) tc),
          Obj (home g), Obj (home_id g), Obj (away g), Obj (away_id g),
          Obj hg, Obj ag, Obj (snd eg), Obj (fst eg),
          Obj (fst (snd (fst pp))), Obj (fst (snd (snd pp))),
          Obj (case game_id g of None \<Rightarrow> JNone | Some s \<Rightarrow> JStr s), Obj (winner g),
          Obj (date g), Obj description]"
  using assms
  apply (simp only: play_row_def Let_def case_prod_beta bnd_eq_Inr if_None_eq_Some)
  apply (elim exE conjE)
  apply (simp only: sum.inject option.inject)
  done

text \<open>The cells of a row of the event table under the column names used below.\<close>

lemma event_fields:
  fixes r :: "cell list"
  assumes "r = [c0, c1, c2, c3, c4, c5, c6, c7, c8, c9, c10, c11, c12, c13, c14, c15, c16,
                c17, c18, c19, c20, c21, c22, c23, c24]"
  shows "field event_cols r ''secondary_type'' = Some c1"
    "field event_cols r ''player_one'' = Some c2"
    "field event_cols r ''player_one_role'' = Some c3"
    "field event_cols r ''player_two'' = Some c4"
    "field event_cols r ''player_two_role'' = Some c5"
    "field event_cols r ''coords'' = Some c6"
    "field event_cols r ''game_winning'' = Some c17"
    "field event_cols r ''empty_net'' = Some c18"
    "field event_cols r ''player_one_id'' = Some c19"
    "field event_cols r ''player_two_id'' = Some c20"
  by (simp_all add: assms field_def event_cols_def)

text \<open>The row of an empty-net goal with a scorer and two assists.\<close>

lemma lower_examples:
  "str_lower ''GOAL'' = ''goal''" "str_lower ''HIT'' = ''hit''"
  "str_lower ''CHALLENGE'' = ''challenge''" "str_lower ''SHOT'' = ''shot''"
  by code_simp+






lemma participants_no_players:
  "py_getitem play ''players'' = Inl KeyError \<Longrightarrow>
   participants play en = Inr ((JNone, JNone, JNone), (JNone, JNone, JNone))"
  by (simp add: participants_def)

lemma makeDataFrames_raises:
  assumes "Game_init (serving (example_feed hg ag plays)) gid = Inr g"
    and "play_rows g plays = Inl e"
  shows "makeDataFrames (serving (example_feed hg ag plays)) relabel False g = Inl e"
proof -
  from init_example [of hg ag plays gid] assms(1) have
    "DataFrame_slot g = None" "live_data g = example_feed hg ag plays"
    by auto
  with assms(2) show ?thesis
    by (simp add: makeDataFrames_def refresh_def example_feed_def)
qed

lemma hit_without_team:
  "play_row g (example_play ''Hit'' ''HIT'' 1
      [example_player ''Hitter'' ''H'' 11, example_player ''Hittee'' ''I'' 12] []) = Inl KeyError"
  by (simp add: play_row_def skip_play_def example_play_def example_player_def lower_examples
      weird_events_def other_events_def coords_array_def participants_def list_index_def)

section \<open>The rows of the event table\<close>

lemma play_row_skip:
  assumes "play_row g p = Inr v"
  shows "skip_play p = Inr (v = None)"
proof (cases v)
  case None
  show ?thesis
  proof (cases "skip_play p")
    case (Inl e)
    with assms show ?thesis
      by (simp add: play_row_def)
  next
    case (Inr b)
    show ?thesis
    proof (cases b)
      case True
      with Inr None show ?thesis
        by simp
    next
      case False
      with Inr have s: "skip_play p = Inr False"
        by simp
      from assms None have False
        unfolding play_row_def s
        apply (simp only: bnd_Inr if_False Let_def case_prod_beta bnd_eq_Inr)
        apply (elim exE conjE)
        apply simp
        done
      then show ?thesis ..
    qed
  qed
next
  case (Some r)
  with assms have "play_row g p = Inr (Some r)"
    by simp
  then show ?thesis
  proof (cases rule: play_row_SomeE [case_names row])
    case (row ety event description period ptr score hg ag coords eg secondary_type pp tc)
    from row(1) Some show ?thesis
      by simp
  qed
qed

lemma play_rows_length:
  "play_rows g ps = Inr rs \<Longrightarrow>
   length rs = length (filter (\<lambda>p. skip_play p = Inr False) ps)"
proof (induction ps arbitrary: rs)
  case Nil
  then show ?case
    by simp
next
  case (Cons p ps)
  from Cons.prems obtain r rs' where
    r: "play_row g p = Inr r" and rs': "play_rows g ps = Inr rs'" and
    eq: "rs = (case r of None \<Rightarrow> rs' | Some v \<Rightarrow> v # rs')"
    by (auto simp add: bnd_eq_Inr)
  from Cons.IH [OF rs'] play_row_skip [OF r] eq show ?case
    by (cases r) simp_all
qed

lemma skip_play_of_name:
  "getpath p [''result'', ''event''] = Inr (JStr s) \<Longrightarrow>
   skip_play p = Inr (s \<in> set weird_events \<or> s \<in> set other_events)"
  by (auto simp add: skip_play_def list_ex_iff simp del: getpath.simps)

lemma pd_DataFrame_rows:
  "pd_DataFrame data cols = Inr df \<Longrightarrow> rows df = data \<and> columns df = cols"
  by (auto simp add: pd_DataFrame_def split: if_splits)

lemma play_rows_width:
  "play_rows g ps = Inr data \<Longrightarrow> list_all (\<lambda>r. length r = 25) data"
proof (induction ps arbitrary: data)
  case Nil
  then show ?case
    by simp
next
  case (Cons p ps)
  from Cons.prems obtain r rs' where
    r: "play_row g p = Inr r" and rs': "play_rows g ps = Inr rs'" and
    eq: "data = (case r of None \<Rightarrow> rs' | Some v \<Rightarrow> v # rs')"
    by (auto simp add: bnd_eq_Inr)
  show ?case
  proof (cases r)
    case None
    with Cons.IH [OF rs'] eq show ?thesis
      by simp
  next
    case (Some v)
    with r have "play_row g p = Inr (Some v)"
      by simp
    then have "length v = 25"
      by (cases rule: play_row_SomeE [case_names row]) simp
    with Cons.IH [OF rs'] eq Some show ?thesis
      by simp
  qed
qed

lemma makeDataFrames_runs:
  assumes "DataFrame_slot g = None"
    and "getpath (live_data g) [''plays'', ''allPlays''] = Inr (JList ps)"
    and "play_rows g ps = Inr data"
  shows "\<exists>g'. makeDataFrames getLiveData relabel False g = Inr (None, g') \<and>
           DataFrame_slot g' = Some \<lparr>columns = event_cols, rows = data\<rparr>"
  using assms play_rows_width [OF assms(3)]
  by (cases relabel)
    (simp_all add: makeDataFrames_def refresh_def pd_DataFrame_def event_cols_def
      where_event_def pd_concat_def df_rename_def penalty_relabel_def hit_relabel_def
      role_cols_def eval_nat_numeral del: getpath.simps)

lemma example_play_row:
  assumes "home g = JStr ''BOS''" and "away g = JStr ''NYR''"
    and "ev \<notin> set weird_events" and "ev \<notin> set other_events"
  shows "play_row g (example_play ev ety 1
           [example_player ''Hitter'' ''H'' 11, example_player ''Hittee'' ''I'' 12] bos) =
         Inr (Some [Obj (JStr (str_lower ety)), Obj JNone, Obj (JStr ''H''),
           Obj (JStr ''Hitter''), Obj (JStr ''I''), Obj (JStr ''Hittee''), NaN, Obj (JInt 1),
           Obj (JStr ''15:00''), Obj (JStr ''BOS''), Obj (JStr ''NYR''),
           Obj (JStr ''BOS''), Obj (home_id g), Obj (JStr ''NYR''), Obj (away_id g),
           Obj (JInt 1), Obj (JInt 0), Obj JNone, Obj JNone,
           Obj (JInt 11), Obj (JInt 12),
           Obj (case game_id g of None \<Rightarrow> JNone | Some s \<Rightarrow> JStr s), Obj (winner g),
           Obj (date g), Obj (JStr ''a play'')])"
  using assms(3,4)
  by (simp add: play_row_def skip_play_def example_play_def example_player_def bos_def
      list_ex_iff coords_array_def participants_def list_index_def other_team_def assms(1,2))

lemma stoppage_skipped:
  "play_row g (example_play ''Stoppage'' ''STOP'' 1 [] []) = Inr None"
  by (simp add: play_row_def skip_play_def example_play_def weird_events_def other_events_def)

text \<open>
  C2, as the code has it. A run of \<^verbatim>\<open>makeDataFrames\<close> that does not return the stored
  table returns \<^verbatim>\<open>None\<close> and stores an event table with one row for every play that the
  loop does not skip, so its row count is the number of those plays. The loop skips a play
  exactly when its \<^verbatim>\<open>result.event\<close> lies in \<^verbatim>\<open>weird_events\<close> or in
  \<^verbatim>\<open>other_events\<close>; the set \<^verbatim>\<open>game_events\<close> plays no part, so a play whose event
  name is in none of the three sets is kept like any other.
\<close>

theorem event_table_row_count:
  assumes "makeDataFrames getLiveData relabel updateLiveData g = Inr (ret, g')"
    and "updateLiveData \<or> DataFrame_slot g = None"
  shows "\<exists>g1 plays ps df.
           refresh getLiveData updateLiveData g = Inr g1 \<and>
           getpath (live_data g1) [''plays'', ''allPlays''] = Inr plays \<and>
           py_iter plays = Inr ps \<and>
           ret = None \<and> DataFrame_slot g' = Some df \<and>
           length (rows df) = length (filter (\<lambda>p. skip_play p = Inr False) ps) \<and>
           (\<forall>p s. getpath p [''result'', ''event''] = Inr (JStr s) \<longrightarrow>
              (skip_play p = Inr False) = (s \<notin> set weird_events \<and> s \<notin> set other_events))"
proof -
  from assms(2) have "\<not> (\<not> updateLiveData \<and> DataFrame_slot g \<noteq> None)"
    by auto
  with assms(1) have "\<exists>g1 plays ps data df.
      refresh getLiveData updateLiveData g = Inr g1 \<and>
      getpath (live_data g1) [''plays'', ''allPlays''] = Inr plays \<and>
      py_iter plays = Inr ps \<and> play_rows g1 ps = Inr data \<and>
      pd_DataFrame data event_cols = Inr df \<and>
      ret = None \<and> DataFrame_slot g' = Some df"
    apply (simp only: makeDataFrames_def if_False Let_def bnd_eq_Inr)
    apply (elim exE conjE)
    apply (simp only: sum.inject prod.inject)
    apply (elim conjE)
    apply (intro exI conjI)
          apply (rule refl, assumption+)
     apply (rule refl | erule sym)
    apply (erule subst [of _ g'], simp)
    done
  then obtain g1 plays ps data df where
    run: "refresh getLiveData updateLiveData g = Inr g1"
      "getpath (live_data g1) [''plays'', ''allPlays''] = Inr plays"
      "py_iter plays = Inr ps" "play_rows g1 ps = Inr data"
      "pd_DataFrame data event_cols = Inr df" and
    res: "ret = None" "DataFrame_slot g' = Some df"
    by blast
  from run(5) have "rows df = data"
    by (simp add: pd_DataFrame_rows)
  with play_rows_length [OF run(4)] have
    "length (rows df) = length (filter (\<lambda>p. skip_play p = Inr False) ps)"
    by simp
  with run res show ?thesis
    by (auto simp add: skip_play_of_name simp del: getpath.simps)
qed

theorem event_table_row_count_witness:
  "\<exists>g g' df.
     Game_init (serving (example_feed 3 1
       [example_play ''Hit'' ''HIT'' 1
          [example_player ''Hitter'' ''H'' 11, example_player ''Hittee'' ''I'' 12] bos,
        example_play ''Stoppage'' ''STOP'' 1 [] []])) None = Inr g \<and>
     DataFrame_slot g = None \<and>
     makeDataFrames (serving (example_feed 3 1
       [example_play ''Hit'' ''HIT'' 1
          [example_player ''Hitter'' ''H'' 11, example_player ''Hittee'' ''I'' 12] bos,
        example_play ''Stoppage'' ''STOP'' 1 [] []])) True False g = Inr (None, g') \<and>
     DataFrame_slot g' = Some df \<and> length (rows df) = 1"
proof -
  let ?hit = "example_play ''Hit'' ''HIT'' 1
          [example_player ''Hitter'' ''H'' 11, example_player ''Hittee'' ''I'' 12] bos"
  let ?stop = "example_play ''Stoppage'' ''STOP'' 1 [] []"
  let ?feed = "example_feed 3 1 [?hit, ?stop]"
  from init_example [of 3 1 "[?hit, ?stop]" None] obtain g where
    init: "Game_init (serving ?feed) None = Inr g" and
    g: "home g = JStr ''BOS''" "away g = JStr ''NYR''" "DataFrame_slot g = None"
      "live_data g = ?feed"
    by force
  have plays: "getpath (live_data g) [''plays'', ''allPlays''] = Inr (JList [?hit, ?stop])"
    by (simp add: g(4) example_feed_def)
  have "''Hit'' \<notin> set weird_events" "''Hit'' \<notin> set other_events"
    by (simp_all add: weird_events_def other_events_def)
  from example_play_row [OF g(1,2) this, of "''HIT''"] stoppage_skipped [of g]
  obtain r where rows: "play_rows g [?hit, ?stop] = Inr [r]"
    by simp
  from makeDataFrames_runs [OF g(3) plays rows, of "serving ?feed" True] obtain g' where
    run: "makeDataFrames (serving ?feed) True False g = Inr (None, g')"
    by blast
  have skips: "skip_play ?hit = Inr False" "skip_play ?stop = Inr True"
    by (simp_all add: skip_play_def example_play_def weird_events_def other_events_def)
  from event_table_row_count [OF run] g(3) obtain ps df where
    "refresh (serving ?feed) False g = Inr g"
    "bnd (getpath (live_data g) [''plays'', ''allPlays'']) py_iter = Inr ps"
    "DataFrame_slot g' = Some df"
    "length (rows df) = length (filter (\<lambda>p. skip_play p = Inr False) ps)"
    by (auto simp add: refresh_def simp del: getpath.simps)
  with plays skips have "DataFrame_slot g' = Some df" "length (rows df) = 1"
    by (auto simp del: getpath.simps)
  with init g(3) run show ?thesis
    by blast
qed

text \<open>
  C2, as the specification states it, fails on an event name that is in none of the three
  sets: the play is not skipped, and the event table of a feed whose only play is of such a
  type has one row, whose \<^verbatim>\<open>event\<close> is the lower-cased \<^verbatim>\<open>eventTypeId\<close>.
\<close>

theorem unknown_event_type_retained_counterexample:
  "''Challenge'' \<notin> set weird_events \<and> ''Challenge'' \<notin> set other_events \<and>
   ''Challenge'' \<notin> set game_events \<and>
   (\<exists>g g' df.
      Game_init (serving (example_feed 3 1
        [example_play ''Challenge'' ''CHALLENGE'' 1
           [example_player ''Hitter'' ''H'' 11, example_player ''Hittee'' ''I'' 12] bos])) None
        = Inr g \<and>
      makeDataFrames (serving (example_feed 3 1
        [example_play ''Challenge'' ''CHALLENGE'' 1
           [example_player ''Hitter'' ''H'' 11, example_player ''Hittee'' ''I'' 12] bos]))
        True False g = Inr (None, g') \<and>
      DataFrame_slot g' = Some df \<and> length (rows df) = 1 \<and>
      cell_at df 0 ''event'' = Some (Obj (JStr ''challenge'')))"
proof -
  let ?play = "example_play ''Challenge'' ''CHALLENGE'' 1
           [example_player ''Hitter'' ''H'' 11, example_player ''Hittee'' ''I'' 12] bos"
  let ?feed = "example_feed 3 1 [?play]"
  have unknown: "''Challenge'' \<notin> set weird_events" "''Challenge'' \<notin> set other_events"
    "''Challenge'' \<notin> set game_events"
    by (simp_all add: weird_events_def other_events_def game_events_def)
  from init_example [of 3 1 "[?play]" None] obtain g where
    init: "Game_init (serving ?feed) None = Inr g" and
    g: "home g = JStr ''BOS''" "away g = JStr ''NYR''" "DataFrame_slot g = None"
      "live_data g = ?feed"
    by force
  have plays: "getpath (live_data g) [''plays'', ''allPlays''] = Inr (JList [?play])"
    by (simp add: g(4) example_feed_def)
  from example_play_row [OF g(1,2) unknown(1,2), of "''CHALLENGE''"]
  obtain r where rows: "play_rows g [?play] = Inr [Obj (JStr ''challenge'') # r]"
    by (simp add: lower_examples)
  from makeDataFrames_runs [OF g(3) plays rows, of "serving ?feed" True] obtain g' where
    run: "makeDataFrames (serving ?feed) True False g = Inr (None, g')" and
    slot: "DataFrame_slot g' =
             Some \<lparr>columns = event_cols, rows = [Obj (JStr ''challenge'') # r]\<rparr>"
    by blast
  have "cell_at \<lparr>columns = event_cols, rows = [Obj (JStr ''challenge'') # r]\<rparr> 0 ''event''
          = Some (Obj (JStr ''challenge''))"
    by (simp add: cell_at_def field_def event_cols_def)
  with init run slot unknown show ?thesis
    by (intro conjI exI [of _ g] exI [of _ g']
        exI [of _ "\<lparr>columns = event_cols, rows = [Obj (JStr ''challenge'') # r]\<rparr>"]) simp_all
qed

section \<open>Fields read inside and outside a try block\<close>

lemma participants_empty_list:
  "py_getitem play ''players'' = Inr (JList []) \<Longrightarrow> participants play en = Inl IndexError"
  by (simp add: participants_def list_index_def except_KeyError_def)

lemma guarded_row:
  assumes "skip_play play = Inr False"
    and "getpath play [''result'', ''eventTypeId''] = Inr (JStr ety)"
    and "getpath play [''result'', ''description''] = Inr description"
    and "getpath play [''about'', ''period''] = Inr period"
    and "getpath play [''about'', ''periodTimeRemaining''] = Inr ptr"
    and "getpath play [''about'', ''goals''] = Inr score"
    and "py_getitem score ''home'' = Inr hg" and "py_getitem score ''away'' = Inr ag"
    and "getpath play [''team'', ''triCode''] = Inr tc"
    and "case coords of None \<Rightarrow> py_getitem play ''coordinates'' = Inl KeyError
         | Some arr \<Rightarrow> coords_array play = Inr arr"
    and "case flags of
           None \<Rightarrow> getpath play [''result'', ''emptyNet''] = Inl KeyError \<or>
                  (\<exists>en. getpath play [''result'', ''emptyNet''] = Inr en) \<and>
                  getpath play [''result'', ''gameWinningGoal''] = Inl KeyError
         | Some (en, gw) \<Rightarrow> getpath play [''result'', ''emptyNet''] = Inr en \<and>
                  getpath play [''result'', ''gameWinningGoal''] = Inr gw"
    and "case strength of
           None \<Rightarrow> getpath play [''result'', ''strength'', ''name''] = Inl KeyError
         | Some n \<Rightarrow> getpath play [''result'', ''strength'', ''name''] = Inr (JStr n)"
    and "case secondary of
           None \<Rightarrow> getpath play [''result'', ''secondaryType''] = Inl KeyError
         | Some st \<Rightarrow> getpath play [''result'', ''secondaryType''] = Inr st"
    and "participants play (case flags of None \<Rightarrow> JNone | Some (en, gw) \<Rightarrow> en) =
           Inr ((p1, i1, r1), (p2, i2, r2))"
  shows "play_row g play =
      Inr (Some [Obj (JStr (str_lower ety)),
                 Obj (case secondary of None \<Rightarrow> JNone | Some st \<Rightarrow> st),
                 Obj p1, Obj r1, Obj p2, Obj r2,
                 (case coords of None \<Rightarrow> NaN | Some arr \<Rightarrow> Arr arr),
                 Obj period, Obj ptr, Obj tc,
                 Obj (other_team (home g) (away g) tc),
                 Obj (home g), Obj (home_id g), Obj (away g), Obj (away_id g),
                 Obj hg, Obj ag,
                 Obj (case flags of None \<Rightarrow> JNone | Some (en, gw) \<Rightarrow> gw),
                 Obj (case flags of None \<Rightarrow> JNone | Some (en, gw) \<Rightarrow> en),
                 Obj i1, Obj i2,
                 Obj (case game_id g of None \<Rightarrow> JNone | Some s \<Rightarrow> JStr s), Obj (winner g),
                 Obj (date g), Obj description])"
proof -
  from assms(10) have c:
    "except_KeyError (bnd (coords_array play) (\<lambda>arr. Inr (Arr arr))) (Inr NaN) =
       Inr (case coords of None \<Rightarrow> NaN | Some arr \<Rightarrow> Arr arr)"
    by (cases coords) (simp_all add: coords_array_def)
  from assms(11) have f:
    "except_KeyError
       (bnd (getpath play [''result'', ''emptyNet'']) (\<lambda>en.
        bnd (getpath play [''result'', ''gameWinningGoal'']) (\<lambda>gw. Inr (en, gw))))
       (Inr (JNone, JNone)) =
     Inr (case flags of None \<Rightarrow> (JNone, JNone) | Some (en, gw) \<Rightarrow> (en, gw))"
    by (cases flags) (auto simp del: getpath.simps)
  from assms(12) have s:
    "except_KeyError
       (bnd (getpath play [''result'', ''strength'', ''name'']) (\<lambda>n.
        bnd (py_lower n) (\<lambda>s. Inr (JStr s))))
       (Inr JNone) =
     Inr (case strength of None \<Rightarrow> JNone | Some n \<Rightarrow> JStr (str_lower n))"
    by (cases strength) (simp_all del: getpath.simps)
  from assms(13) have t:
    "except_KeyError (getpath play [''result'', ''secondaryType'']) (Inr JNone) =
       Inr (case secondary of None \<Rightarrow> JNone | Some st \<Rightarrow> st)"
    by (cases secondary) (simp_all del: getpath.simps)
  from assms(14) show ?thesis
    unfolding play_row_def
    by (simp only: assms(1-9) c f s t bnd_Inr if_False Let_def case_prod_beta)
      (cases flags; simp add: case_prod_beta)
qed

lemma unguarded_failure_raises:
  assumes "skip_play play = Inr False"
    and "getpath play [''result'', ''eventTypeId''] = Inl e \<or>
     getpath play [''result'', ''description''] = Inl e \<or>
     getpath play [''about'', ''period''] = Inl e \<or>
     getpath play [''about'', ''periodTimeRemaining''] = Inl e \<or>
     getpath play [''about'', ''goals''] = Inl e \<or>
     (\<exists>sc. getpath play [''about'', ''goals''] = Inr sc \<and>
        (py_getitem sc ''home'' = Inl e \<or> py_getitem sc ''away'' = Inl e)) \<or>
     getpath play [''team'', ''triCode''] = Inl e \<or>
     coords_array play = Inl e \<and> e \<noteq> KeyError \<or>
     py_getitem play ''players'' = Inr (JList [])"
  shows "\<exists>e'. play_row g play = Inl e'"
proof (cases "play_row g play")
  case (Inl e')
  then show ?thesis
    by blast
next
  case (Inr v)
  show ?thesis
  proof (cases v)
    case None
    with play_row_skip [OF Inr] assms(1) show ?thesis
      by simp
  next
    case (Some r)
    with Inr have "play_row g play = Inr (Some r)"
      by simp
    then show ?thesis
    proof (cases rule: play_row_SomeE [case_names row])
      case (row ety event description period ptr score hg ag coords eg secondary_type pp tc)
      have "participants play (fst eg) = Inl IndexError"
        if "py_getitem play ''players'' = Inr (JList [])"
        using that by (rule participants_empty_list)
      with row(13) have "py_getitem play ''players'' \<noteq> Inr (JList [])"
        by auto
      moreover have "e = KeyError" if "coords_array play = Inl e"
        using row(10) that by (cases e) (simp_all add: except_KeyError_def)
      ultimately show ?thesis
        using assms(2) row(2,4-9,14) by (auto simp del: getpath.simps)
    qed
  qed
qed

lemma play_rows_raises:
  "p \<in> set ps \<Longrightarrow> play_row g p = Inl e \<Longrightarrow> \<exists>e'. play_rows g ps = Inl e'"
proof (induction ps)
  case Nil
  then show ?case
    by simp
next
  case (Cons q qs)
  show ?case
  proof (cases "play_row g q")
    case (Inl x)
    then show ?thesis
      by simp
  next
    case (Inr r)
    with Cons.prems have "p \<in> set qs"
      by auto
    from Cons.IH [OF this Cons.prems(2)] Inr show ?thesis
      by auto
  qed
qed

lemma makeDataFrames_aborts:
  assumes "updateLiveData \<or> DataFrame_slot g0 = None"
    and "refresh getLiveData updateLiveData g0 = Inr g1"
    and "getpath (live_data g1) [''plays'', ''allPlays''] = Inr plays"
    and "py_iter plays = Inr ps" and "p \<in> set ps" and "play_row g1 p = Inl e1"
  shows "\<exists>e'. makeDataFrames getLiveData relabel updateLiveData g0 = Inl e'"
proof -
  from play_rows_raises [OF assms(5,6)] obtain e' where "play_rows g1 ps = Inl e'"
    by blast
  with assms(1-4) have "makeDataFrames getLiveData relabel updateLiveData g0 = Inl e'"
    by (auto simp add: makeDataFrames_def simp del: getpath.simps)
  then show ?thesis
    by blast
qed

lemma hit_without_players:
  "play_row g (example_play ''Hit'' ''HIT'' 1 [] bos) = Inl IndexError"
  by (simp add: play_row_def skip_play_def example_play_def bos_def lower_examples
      weird_events_def other_events_def coords_array_def participants_def list_index_def
      except_KeyError_def)

text \<open>
  C3, as the code has it. For a play that the loop keeps, every read outside a
  \<^verbatim>\<open>try\<close> block succeeding (event type, description, period, time remaining, score and
  the team's \<^verbatim>\<open>triCode\<close>), each guarded group degrades on its own: without
  \<^verbatim>\<open>coordinates\<close> the column \<^verbatim>\<open>coords\<close> is \<^verbatim>\<open>nan\<close>, without \<^verbatim>\<open>emptyNet\<close> or without
  \<^verbatim>\<open>gameWinningGoal\<close> both flags are \<^verbatim>\<open>None\<close>, without \<^verbatim>\<open>secondaryType\<close> that column is
  \<^verbatim>\<open>None\<close>, and a group that is present keeps its values, whatever the other groups do;
  the row is produced whenever the participants block raises nothing but \<^verbatim>\<open>KeyError\<close>,
  as it does for a play without \<^verbatim>\<open>players\<close>, which has \<^verbatim>\<open>None\<close> in all six participant
  fields, and for a play whose first and last entries hold a name, a numeric id and a role
  tag, which has them as its participants. Nothing
  else is caught: a failing read outside the \<^verbatim>\<open>try\<close> blocks (a missing \<^verbatim>\<open>team\<close>, say),
  an exception other than \<^verbatim>\<open>KeyError\<close> in the coordinates, or an empty list of
  \<^verbatim>\<open>players\<close> makes the row raise, and a row that raises makes \<^verbatim>\<open>makeDataFrames\<close>
  raise.
\<close>

theorem guarded_fields_degrade:
  "(skip_play play = Inr False \<and>
    getpath play [''result'', ''eventTypeId''] = Inr (JStr ety) \<and>
    getpath play [''result'', ''description''] = Inr description \<and>
    getpath play [''about'', ''period''] = Inr period \<and>
    getpath play [''about'', ''periodTimeRemaining''] = Inr ptr \<and>
    getpath play [''about'', ''goals''] = Inr score \<and>
    py_getitem score ''home'' = Inr hg \<and> py_getitem score ''away'' = Inr ag \<and>
    getpath play [''team'', ''triCode''] = Inr tc \<and>
    (case coords of None \<Rightarrow> py_getitem play ''coordinates'' = Inl KeyError
     | Some arr \<Rightarrow> coords_array play = Inr arr) \<and>
    (case flags of
       None \<Rightarrow> getpath play [''result'', ''emptyNet''] = Inl KeyError \<or>
              (\<exists>en. getpath play [''result'', ''emptyNet''] = Inr en) \<and>
              getpath play [''result'', ''gameWinningGoal''] = Inl KeyError
     | Some (en, gw) \<Rightarrow> getpath play [''result'', ''emptyNet''] = Inr en \<and>
              getpath play [''result'', ''gameWinningGoal''] = Inr gw) \<and>
    (case strength of
       None \<Rightarrow> getpath play [''result'', ''strength'', ''name''] = Inl KeyError
     | Some n \<Rightarrow> getpath play [''result'', ''strength'', ''name''] = Inr (JStr n)) \<and>
    (case secondary of
       None \<Rightarrow> getpath play [''result'', ''secondaryType''] = Inl KeyError
     | Some st \<Rightarrow> getpath play [''result'', ''secondaryType''] = Inr st) \<and>
    participants play (case flags of None \<Rightarrow> JNone | Some (en, gw) \<Rightarrow> en) =
      Inr ((p1, i1, r1), (p2, i2, r2)) \<longrightarrow>
    play_row g play =
      Inr (Some [Obj (JStr (str_lower ety)),
                 Obj (case secondary of None \<Rightarrow> JNone | Some st \<Rightarrow> st),
                 Obj p1, Obj r1, Obj p2, Obj r2,
                 (case coords of None \<Rightarrow> NaN | Some arr \<Rightarrow> Arr arr),
                 Obj period, Obj ptr, Obj tc,
                 Obj (other_team (home g) (away g) tc),
                 Obj (home g), Obj (home_id g), Obj (away g), Obj (away_id g),
                 Obj hg, Obj ag,
                 Obj (case flags of None \<Rightarrow> JNone | Some (en, gw) \<Rightarrow> gw),
                 Obj (case flags of None \<Rightarrow> JNone | Some (en, gw) \<Rightarrow> en),
                 Obj i1, Obj i2,
                 Obj (case game_id g of None \<Rightarrow> JNone | Some s \<Rightarrow> JStr s), Obj (winner g),
                 Obj (date g), Obj description])) \<and>
   (py_getitem play ''players'' = Inl KeyError \<longrightarrow>
      participants play x = Inr ((JNone, JNone, JNone), (JNone, JNone, JNone))) \<and>
   (py_getitem play ''players'' = Inr (JList entries) \<and> entries \<noteq> [] \<and>
    entry_is (hd entries) n1 k1 t1 \<and> (truthy x \<or> entry_is (last entries) n2 k2 t2) \<longrightarrow>
      participants play x =
        Inr ((n1, JInt k1, t1),
             (if truthy x \<or> py_eq n2 n1 then (JNone, JNone, JNone) else (n2, JInt k2, t2)))) \<and>
   (skip_play play = Inr False \<and>
    (getpath play [''result'', ''eventTypeId''] = Inl e \<or>
     getpath play [''result'', ''description''] = Inl e \<or>
     getpath play [''about'', ''period''] = Inl e \<or>
     getpath play [''about'', ''periodTimeRemaining''] = Inl e \<or>
     getpath play [''about'', ''goals''] = Inl e \<or>
     (\<exists>sc. getpath play [''about'', ''goals''] = Inr sc \<and>
        (py_getitem sc ''home'' = Inl e \<or> py_getitem sc ''away'' = Inl e)) \<or>
     getpath play [''team'', ''triCode''] = Inl e \<or>
     coords_array play = Inl e \<and> e \<noteq> KeyError \<or>
     py_getitem play ''players'' = Inr (JList [])) \<longrightarrow>
    (\<exists>e'. play_row g play = Inl e')) \<and>
   ((updateLiveData \<or> DataFrame_slot g0 = None) \<and>
    refresh getLiveData updateLiveData g0 = Inr g1 \<and>
    getpath (live_data g1) [''plays'', ''allPlays''] = Inr plays \<and>
    py_iter plays = Inr ps \<and> p \<in> set ps \<and> play_row g1 p = Inl e1 \<longrightarrow>
    (\<exists>e'. makeDataFrames getLiveData relabel updateLiveData g0 = Inl e'))"
proof (intro conjI impI)
  assume "skip_play play = Inr False \<and>
    getpath play [''result'', ''eventTypeId''] = Inr (JStr ety) \<and>
    getpath play [''result'', ''description''] = Inr description \<and>
    getpath play [''about'', ''period''] = Inr period \<and>
    getpath play [''about'', ''periodTimeRemaining''] = Inr ptr \<and>
    getpath play [''about'', ''goals''] = Inr score \<and>
    py_getitem score ''home'' = Inr hg \<and> py_getitem score ''away'' = Inr ag \<and>
    getpath play [''team'', ''triCode''] = Inr tc \<and>
    (case coords of None \<Rightarrow> py_getitem play ''coordinates'' = Inl KeyError
     | Some arr \<Rightarrow> coords_array play = Inr arr) \<and>
    (case flags of
       None \<Rightarrow> getpath play [''result'', ''emptyNet''] = Inl KeyError \<or>
              (\<exists>en. getpath play [''result'', ''emptyNet''] = Inr en) \<and>
              getpath play [''result'', ''gameWinningGoal''] = Inl KeyError
     | Some (en, gw) \<Rightarrow> getpath play [''result'', ''emptyNet''] = Inr en \<and>
              getpath play [''result'', ''gameWinningGoal''] = Inr gw) \<and>
    (case strength of
       None \<Rightarrow> getpath play [''result'', ''strength'', ''name''] = Inl KeyError
     | Some n \<Rightarrow> getpath play [''result'', ''strength'', ''name''] = Inr (JStr n)) \<and>
    (case secondary of
       None \<Rightarrow> getpath play [''result'', ''secondaryType''] = Inl KeyError
     | Some st \<Rightarrow> getpath play [''result'', ''secondaryType''] = Inr st) \<and>
    participants play (case flags of None \<Rightarrow> JNone | Some (en, gw) \<Rightarrow> en) =
      Inr ((p1, i1, r1), (p2, i2, r2))"
  then show "play_row g play =
      Inr (Some [Obj (JStr (str_lower ety)),
                 Obj (case secondary of None \<Rightarrow> JNone | Some st \<Rightarrow> st),
                 Obj p1, Obj r1, Obj p2, Obj r2,
                 (case coords of None \<Rightarrow> NaN | Some arr \<Rightarrow> Arr arr),
                 Obj period, Obj ptr, Obj tc,
                 Obj (other_team (home g) (away g) tc),
                 Obj (home g), Obj (home_id g), Obj (away g), Obj (away_id g),
                 Obj hg, Obj ag,
                 Obj (case flags of None \<Rightarrow> JNone | Some (en, gw) \<Rightarrow> gw),
                 Obj (case flags of None \<Rightarrow> JNone | Some (en, gw) \<Rightarrow> en),
                 Obj i1, Obj i2,
                 Obj (case game_id g of None \<Rightarrow> JNone | Some s \<Rightarrow> JStr s), Obj (winner g),
                 Obj (date g), Obj description])"
    by (elim conjE)
      (rule guarded_row [where strength = strength and coords = coords and flags = flags
          and secondary = secondary]; assumption)
next
  assume "py_getitem play ''players'' = Inl KeyError"
  then show "participants play x = Inr ((JNone, JNone, JNone), (JNone, JNone, JNone))"
    by (rule participants_no_players)
next
  assume "py_getitem play ''players'' = Inr (JList entries) \<and> entries \<noteq> [] \<and>
    entry_is (hd entries) n1 k1 t1 \<and> (truthy x \<or> entry_is (last entries) n2 k2 t2)"
  then show "participants play x =
        Inr ((n1, JInt k1, t1),
             (if truthy x \<or> py_eq n2 n1 then (JNone, JNone, JNone) else (n2, JInt k2, t2)))"
    by (elim conjE) (rule participants_first_last; assumption)
next
  assume "skip_play play = Inr False \<and>
    (getpath play [''result'', ''eventTypeId''] = Inl e \<or>
     getpath play [''result'', ''description''] = Inl e \<or>
     getpath play [''about'', ''period''] = Inl e \<or>
     getpath play [''about'', ''periodTimeRemaining''] = Inl e \<or>
     getpath play [''about'', ''goals''] = Inl e \<or>
     (\<exists>sc. getpath play [''about'', ''goals''] = Inr sc \<and>
        (py_getitem sc ''home'' = Inl e \<or> py_getitem sc ''away'' = Inl e)) \<or>
     getpath play [''team'', ''triCode''] = Inl e \<or>
     coords_array play = Inl e \<and> e \<noteq> KeyError \<or>
     py_getitem play ''players'' = Inr (JList []))"
  then show "\<exists>e'. play_row g play = Inl e'"
    using unguarded_failure_raises [of play e g] by blast
next
  assume "(updateLiveData \<or> DataFrame_slot g0 = None) \<and>
    refresh getLiveData updateLiveData g0 = Inr g1 \<and>
    getpath (live_data g1) [''plays'', ''allPlays''] = Inr plays \<and>
    py_iter plays = Inr ps \<and> p \<in> set ps \<and> play_row g1 p = Inl e1"
  then show "\<exists>e'. makeDataFrames getLiveData relabel updateLiveData g0 = Inl e'"
    using makeDataFrames_aborts [of updateLiveData g0 getLiveData g1 plays ps p e1 relabel]
    by blast
qed

theorem guarded_fields_degrade_witness:
  "\<exists>g r. Game_init (serving (example_feed 3 1 [example_play ''Hit'' ''HIT'' 1 [] bos])) None
       = Inr g \<and>
     skip_play sparse_play = Inr False \<and>
     coords_array sparse_play = Inr (FloatArr [10, - 5]) \<and>
     getpath sparse_play [''result'', ''emptyNet''] = Inl KeyError \<and>
     getpath sparse_play [''result'', ''secondaryType''] = Inl KeyError \<and>
     py_getitem sparse_play ''players'' = Inl KeyError \<and>
     play_row g sparse_play = Inr (Some r) \<and>
     field event_cols r ''coords'' = Some (Arr (FloatArr [10, - 5])) \<and>
     field event_cols r ''secondary_type'' = Some (Obj JNone) \<and>
     field event_cols r ''empty_net'' = Some (Obj JNone) \<and>
     field event_cols r ''game_winning'' = Some (Obj JNone) \<and>
     field event_cols r ''player_one'' = Some (Obj JNone) \<and>
     field event_cols r ''player_two'' = Some (Obj JNone) \<and>
     participants (example_play ''Hit'' ''HIT'' 1
         [example_player ''Hitter'' ''H'' 11, example_player ''Hittee'' ''I'' 12] bos) JNone
       = Inr ((JStr ''H'', JInt 11, JStr ''Hitter''), (JStr ''I'', JInt 12, JStr ''Hittee'')) \<and>
     py_getitem (example_play ''Hit'' ''HIT'' 1 [] bos) ''players'' = Inr (JList []) \<and>
     (\<exists>e'. play_row g (example_play ''Hit'' ''HIT'' 1 [] bos) = Inl e') \<and>
     DataFrame_slot g = None \<and>
     (\<exists>e'. makeDataFrames (serving (example_feed 3 1 [example_play ''Hit'' ''HIT'' 1 [] bos]))
             True False g = Inl e')"
proof -
  let ?bare = "example_play ''Hit'' ''HIT'' 1 [] bos"
  let ?hit = "example_play ''Hit'' ''HIT'' 1
         [example_player ''Hitter'' ''H'' 11, example_player ''Hittee'' ''I'' 12] bos"
  let ?feed = "example_feed 3 1 [?bare]"
  from init_example [of 3 1 "[?bare]" None] obtain g where
    init: "Game_init (serving ?feed) None = Inr g" and
    g: "home g = JStr ''BOS''" "away g = JStr ''NYR''" "home_id g = JInt 6" "away_id g = JInt 3"
      "game_id g = None" "winner g = JStr ''NYR''" "date g = JStr ''2019-03-27''" and
    slot: "DataFrame_slot g = None" and feed: "live_data g = ?feed"
    by force
  have keys: "skip_play sparse_play = Inr False"
    "getpath sparse_play [''result'', ''eventTypeId''] = Inr (JStr ''HIT'')"
    "getpath sparse_play [''result'', ''description''] = Inr (JStr ''a play'')"
    "getpath sparse_play [''about'', ''period''] = Inr (JInt 1)"
    "getpath sparse_play [''about'', ''periodTimeRemaining''] = Inr (JStr ''15:00'')"
    "getpath sparse_play [''about'', ''goals''] = Inr (JDict [(''home'', JInt 1), (''away'', JInt 0)])"
    "py_getitem (JDict [(''home'', JInt 1), (''away'', JInt 0)]) ''home'' = Inr (JInt 1)"
    "py_getitem (JDict [(''home'', JInt 1), (''away'', JInt 0)]) ''away'' = Inr (JInt 0)"
    "getpath sparse_play [''team'', ''triCode''] = Inr (JStr ''BOS'')"
    "getpath sparse_play [''result'', ''emptyNet''] = Inl KeyError"
    "getpath sparse_play [''result'', ''strength'', ''name''] = Inl KeyError"
    "getpath sparse_play [''result'', ''secondaryType''] = Inl KeyError"
    "py_getitem sparse_play ''players'' = Inl KeyError"
    by (simp_all add: sparse_play_def at_10_5_def skip_play_def weird_events_def other_events_def)
  have coords: "coords_array sparse_play = Inr (FloatArr [10, - 5])"
    by (simp add: sparse_play_def at_10_5_def coords_array_def np_array_def)
  note inst = guarded_fields_degrade [where play = sparse_play and g = g and ety = "''HIT''"
      and description = "JStr ''a play''" and period = "JInt 1" and ptr = "JStr ''15:00''"
      and score = "JDict [(''home'', JInt 1), (''away'', JInt 0)]" and hg = "JInt 1"
      and ag = "JInt 0" and tc = "JStr ''BOS''" and coords = "Some (FloatArr [10, - 5])"
      and flags = None and strength = None and secondary = None and x = JNone
      and ?p1.0 = JNone and ?i1.0 = JNone and ?r1.0 = JNone
      and ?p2.0 = JNone and ?i2.0 = JNone and ?r2.0 = JNone, THEN conjunct1]
  let ?row = "[Obj (JStr ''hit''), Obj JNone, Obj JNone, Obj JNone, Obj JNone,
                 Obj JNone, Arr (FloatArr [10, - 5]), Obj (JInt 1), Obj (JStr ''15:00''),
                 Obj (JStr ''BOS''), Obj (JStr ''NYR''),
                 Obj (JStr ''BOS''), Obj (JInt 6), Obj (JStr ''NYR''), Obj (JInt 3),
                 Obj (JInt 1), Obj (JInt 0), Obj JNone, Obj JNone, Obj JNone, Obj JNone,
                 Obj JNone, Obj (JStr ''NYR''),
                 Obj (JStr ''2019-03-27''), Obj (JStr ''a play'')]"
  from inst keys coords g participants_no_players [OF keys(13), of JNone]
  have row: "play_row g sparse_play = Inr (Some ?row)"
    by (simp add: lower_examples other_team_def del: getpath.simps)
  have cells: "field event_cols ?row ''coords'' = Some (Arr (FloatArr [10, - 5]))"
    "field event_cols ?row ''secondary_type'' = Some (Obj JNone)"
    "field event_cols ?row ''empty_net'' = Some (Obj JNone)"
    "field event_cols ?row ''game_winning'' = Some (Obj JNone)"
    "field event_cols ?row ''player_one'' = Some (Obj JNone)"
    "field event_cols ?row ''player_two'' = Some (Obj JNone)"
    by (rule event_fields(6), simp, rule event_fields(1), simp, rule event_fields(8), simp,
        rule event_fields(7), simp, rule event_fields(2), simp, rule event_fields(4), simp)
  have pair: "participants ?hit JNone
       = Inr ((JStr ''H'', JInt 11, JStr ''Hitter''), (JStr ''I'', JInt 12, JStr ''Hittee''))"
    using guarded_fields_degrade [where play = ?hit and x = JNone
        and entries = "[example_player ''Hitter'' ''H'' 11, example_player ''Hittee'' ''I'' 12]"
        and ?n1.0 = "JStr ''H''" and ?k1.0 = 11 and ?t1.0 = "JStr ''Hitter''"
        and ?n2.0 = "JStr ''I''" and ?k2.0 = 12 and ?t2.0 = "JStr ''Hittee''",
        THEN conjunct2, THEN conjunct2, THEN conjunct1]
    by (simp add: example_play_def example_player_def entry_is_def)
  have bare: "skip_play ?bare = Inr False" "py_getitem ?bare ''players'' = Inr (JList [])"
    by (simp_all add: example_play_def skip_play_def weird_events_def other_events_def)
  have raises: "\<exists>e'. play_row g ?bare = Inl e'"
    by (rule guarded_fields_degrade [where play = ?bare and g = g and e = IndexError,
          THEN conjunct2, THEN conjunct2, THEN conjunct2, THEN conjunct1, THEN mp])
      (simp add: bare del: getpath.simps)
  have aborts: "\<exists>e'. makeDataFrames (serving ?feed) True False g = Inl e'"
    by (rule guarded_fields_degrade [where ?g0.0 = g and ?g1.0 = g and updateLiveData = False
          and getLiveData = "serving ?feed" and plays = "JList [?bare]" and ps = "[?bare]"
          and p = ?bare and ?e1.0 = IndexError and relabel = True,
          THEN conjunct2, THEN conjunct2, THEN conjunct2, THEN conjunct2, THEN mp])
      (simp add: slot feed refresh_def example_feed_def hit_without_players)
  from init keys coords row cells pair bare raises slot aborts show ?thesis
    by (intro exI [of _ g] exI [of _ ?row]) (simp del: getpath.simps)
qed

text \<open>
  C3, as the specification states it, fails for the team field and for an empty list of
  participants: \<^verbatim>\<open>play['team']['triCode']\<close> is read outside any \<^verbatim>\<open>try\<close> block, and
  \<^verbatim>\<open>play['players'][0]\<close> of an empty list raises \<^verbatim>\<open>IndexError\<close>, which the handler for
  \<^verbatim>\<open>KeyError\<close> lets through. In both cases \<^verbatim>\<open>makeDataFrames\<close> raises and no table is
  built.
\<close>

theorem uncaught_failures_abort_counterexample:
  "py_getitem (example_play ''Hit'' ''HIT'' 1
      [example_player ''Hitter'' ''H'' 11, example_player ''Hittee'' ''I'' 12] []) ''team''
     = Inl KeyError \<and>
   skip_play (example_play ''Hit'' ''HIT'' 1
      [example_player ''Hitter'' ''H'' 11, example_player ''Hittee'' ''I'' 12] []) = Inr False \<and>
   bnd (Game_init (serving (example_feed 3 1 [example_play ''Hit'' ''HIT'' 1
      [example_player ''Hitter'' ''H'' 11, example_player ''Hittee'' ''I'' 12] []])) None)
     (makeDataFrames (serving (example_feed 3 1 [example_play ''Hit'' ''HIT'' 1
      [example_player ''Hitter'' ''H'' 11, example_player ''Hittee'' ''I'' 12] []])) True False)
     = Inl KeyError \<and>
   py_getitem (example_play ''Hit'' ''HIT'' 1 [] bos) ''players'' = Inr (JList []) \<and>
   skip_play (example_play ''Hit'' ''HIT'' 1 [] bos) = Inr False \<and>
   bnd (Game_init (serving (example_feed 3 1 [example_play ''Hit'' ''HIT'' 1 [] bos])) None)
     (makeDataFrames (serving (example_feed 3 1 [example_play ''Hit'' ''HIT'' 1 [] bos]))
        True False)
     = Inl IndexError"
proof -
  let ?play = "example_play ''Hit'' ''HIT'' 1
      [example_player ''Hitter'' ''H'' 11, example_player ''Hittee'' ''I'' 12] []"
  let ?bare = "example_play ''Hit'' ''HIT'' 1 [] bos"
  from init_example [of 3 1 "[?play]" None] obtain g where
    init: "Game_init (serving (example_feed 3 1 [?play])) None = Inr g"
    by blast
  have "play_rows g [?play] = Inl KeyError"
    by (simp add: hit_without_team)
  from makeDataFrames_raises [OF init this] init
  have run: "bnd (Game_init (serving (example_feed 3 1 [?play])) None)
     (makeDataFrames (serving (example_feed 3 1 [?play])) True False) = Inl KeyError"
    by simp
  from init_example [of 3 1 "[?bare]" None] obtain g' where
    init': "Game_init (serving (example_feed 3 1 [?bare])) None = Inr g'"
    by blast
  have "play_rows g' [?bare] = Inl IndexError"
    by (simp add: hit_without_players)
  from makeDataFrames_raises [OF init' this] init'
  have run': "bnd (Game_init (serving (example_feed 3 1 [?bare])) None)
     (makeDataFrames (serving (example_feed 3 1 [?bare])) True False) = Inl IndexError"
    by simp
  have "py_getitem ?play ''team'' = Inl KeyError" "skip_play ?play = Inr False"
    "py_getitem ?bare ''players'' = Inr (JList [])" "skip_play ?bare = Inr False"
    by (simp_all add: example_play_def skip_play_def weird_events_def other_events_def)
  with run run' show ?thesis
    by simp
qed

end
